theory Spec2Isabelle
  imports Complex_Main
begin

section \<open>Errors and sequencing\<close>

text \<open>
  The exceptions that the modelled code, or the Python and tensor operations it calls, can
  raise. A computation that may raise returns \<open>error + 'a\<close>, with \<open>Inl\<close> for the exception.
\<close>

datatype error = NotImplementedError | IndexError | TypeError | RuntimeError | AttributeError

definition bind :: "error + 'a \<Rightarrow> ('a \<Rightarrow> error + 'b) \<Rightarrow> error + 'b" where
  "bind m f = (case m of Inl e \<Rightarrow> Inl e | Inr v \<Rightarrow> f v)"

text \<open>Python's \<open>xs[i]\<close> for a non-negative index.\<close>

definition get :: "'a list \<Rightarrow> nat \<Rightarrow> error + 'a" where
  "get xs i = (if i < length xs then Inr (xs ! i) else Inl IndexError)"

text \<open>A list comprehension or \<open>for\<close> loop that builds a list, stopping at the first exception.\<close>

fun traverse :: "('a \<Rightarrow> error + 'b) \<Rightarrow> 'a list \<Rightarrow> error + 'b list" where
  "traverse f [] = Inr []"
| "traverse f (x # xs) = bind (f x) (\<lambda>y. bind (traverse f xs) (\<lambda>ys. Inr (y # ys)))"

section \<open>Tensors\<close>

text \<open>
  The tensor kernels belong to the external tensor library. Only the operations that the
  modelled code calls directly are given a meaning here, following the library's
  documentation, with the reals in place of floating-point numbers (so rounding, infinities
  and NaN are outside the model: a division by zero is HOL's).
  A tensor is its shape and its elements by index; \<open>tensor_of\<close> builds one whose elements
  outside the shape are \<open>0\<close>, so that two tensors built by it are equal exactly when their
  shapes and their elements inside the shape agree.
\<close>

record tensor =
  shape :: "nat list"
  elem :: "nat list \<Rightarrow> real"

definition valid_index :: "nat list \<Rightarrow> nat list \<Rightarrow> bool" where
  "valid_index s idx = list_all2 (\<lambda>i d. i < d) idx s"

definition tensor_of :: "nat list \<Rightarrow> (nat list \<Rightarrow> real) \<Rightarrow> tensor" where
  "tensor_of s f = \<lparr>shape = s, elem = (\<lambda>idx. if valid_index s idx then f idx else 0)\<rparr>"

text \<open>
  Broadcasting: shapes are aligned at their last dimension; two sizes are compatible when
  they are equal or one of them is 1.
\<close>

definition broadcast_dim :: "nat \<Rightarrow> nat \<Rightarrow> nat option" where
  "broadcast_dim a b =
     (if a = b then Some a else if a = 1 then Some b else if b = 1 then Some a else None)"

fun broadcast_rev :: "nat list \<Rightarrow> nat list \<Rightarrow> nat list option" where
  "broadcast_rev [] bs = Some bs"
| "broadcast_rev (a # as) [] = Some (a # as)"
| "broadcast_rev (a # as) (b # bs) =
     (case broadcast_dim a b of
        None \<Rightarrow> None
      | Some d \<Rightarrow> map_option ((#) d) (broadcast_rev as bs))"

definition broadcast_shapes :: "nat list \<Rightarrow> nat list \<Rightarrow> nat list option" where
  "broadcast_shapes s t = map_option rev (broadcast_rev (rev s) (rev t))"

text \<open>The index into an operand of shape \<open>s\<close> that an index of the broadcast result reads.\<close>

definition broadcast_index :: "nat list \<Rightarrow> nat list \<Rightarrow> nat list" where
  "broadcast_index s idx =
     map (\<lambda>(d, i). if d = 1 then 0 else i) (zip s (drop (length idx - length s) idx))"

definition elementwise :: "(real \<Rightarrow> real \<Rightarrow> real) \<Rightarrow> tensor \<Rightarrow> tensor \<Rightarrow> error + tensor" where
  "elementwise f a b =
     (case broadcast_shapes (shape a) (shape b) of
        None \<Rightarrow> Inl RuntimeError
      | Some s \<Rightarrow>
          Inr (tensor_of s (\<lambda>idx. f (elem a (broadcast_index (shape a) idx))
                                     (elem b (broadcast_index (shape b) idx)))))"

definition tensor_add :: "tensor \<Rightarrow> tensor \<Rightarrow> error + tensor" where
  "tensor_add = elementwise (+)"

definition tensor_sub :: "tensor \<Rightarrow> tensor \<Rightarrow> error + tensor" where
  "tensor_sub = elementwise (-)"

definition tensor_mul :: "tensor \<Rightarrow> tensor \<Rightarrow> error + tensor" where
  "tensor_mul = elementwise (*)"

definition tensor_div :: "tensor \<Rightarrow> tensor \<Rightarrow> error + tensor" where
  "tensor_div = elementwise (/)"

definition tensor_map :: "(real \<Rightarrow> real) \<Rightarrow> tensor \<Rightarrow> tensor" where
  "tensor_map f a = tensor_of (shape a) (\<lambda>idx. f (elem a idx))"

text \<open>\<open>x.pow(2)\<close>, \<open>torch.sqrt(x)\<close> and \<open>x + c\<close> for a number \<open>c\<close>.\<close>

definition pow2 :: "tensor \<Rightarrow> tensor" where
  "pow2 = tensor_map (\<lambda>v. v ^ 2)"

definition tensor_sqrt :: "tensor \<Rightarrow> tensor" where
  "tensor_sqrt = tensor_map sqrt"

definition add_scalar :: "tensor \<Rightarrow> real \<Rightarrow> tensor" where
  "add_scalar a c = tensor_map (\<lambda>v. v + c) a"

text \<open>\<open>x.mean(d, keepdim=True)\<close>: the mean along dimension \<open>d\<close>, which stays with size 1.\<close>

definition mean_keepdim :: "nat \<Rightarrow> tensor \<Rightarrow> error + tensor" where
  "mean_keepdim d a =
     (if d < length (shape a)
      then Inr (tensor_of ((shape a)[d := 1])
             (\<lambda>idx. sum_list (map (\<lambda>k. elem a (idx[d := k])) [0..<shape a ! d])
                     / real (shape a ! d)))
      else Inl IndexError)"

text \<open>\<open>x.mean([-2, -1])\<close>: the mean over the last two dimensions, which are removed.\<close>

definition mean_last2 :: "tensor \<Rightarrow> error + tensor" where
  "mean_last2 a =
     (let r = length (shape a) in
      if 2 \<le> r
      then Inr (tensor_of (take (r - 2) (shape a))
             (\<lambda>idx. sum_list (map (\<lambda>h. sum_list (map (\<lambda>w. elem a (idx @ [h, w]))
                                                        [0..<shape a ! (r - 1)]))
                                   [0..<shape a ! (r - 2)])
                     / real (shape a ! (r - 2) * shape a ! (r - 1))))
      else Inl IndexError)"

text \<open>
  \<open>x.permute(p)\<close>: dimension \<open>j\<close> of the result is dimension \<open>p[j]\<close> of \<open>x\<close>; \<open>p\<close> must be a
  permutation of the dimensions of \<open>x\<close>.
\<close>

definition permute :: "tensor \<Rightarrow> nat list \<Rightarrow> error + tensor" where
  "permute a p =
     (let r = length (shape a) in
      if length p = r \<and> distinct p \<and> list_all (\<lambda>d. d < r) p
      then Inr (tensor_of (map (\<lambda>d. shape a ! d) p)
             (\<lambda>idx. elem a (map (\<lambda>d. the (map_of (zip p idx) d)) [0..<r])))
      else Inl RuntimeError)"

text \<open>A one-dimensional parameter \<open>w\<close> as a tensor, and \<open>w[:, None, None]\<close> of shape \<open>(n, 1, 1)\<close>.\<close>

definition vector :: "real list \<Rightarrow> tensor" where
  "vector w = tensor_of [length w] (\<lambda>idx. w ! (idx ! 0))"

definition column :: "real list \<Rightarrow> tensor" where
  "column w = tensor_of [length w, 1, 1] (\<lambda>idx. w ! (idx ! 0))"

text \<open>
  \<open>F.layer_norm(x, (n,), weight, bias, eps)\<close> of the tensor library: over the last
  dimension, which must have size \<open>n\<close>, as must \<open>weight\<close> and \<open>bias\<close>,
  \<open>y = (x - E[x]) / sqrt(Var[x] + eps) * weight + bias\<close> with the biased variance.
\<close>

definition F_layer_norm :: "tensor \<Rightarrow> nat \<Rightarrow> real list \<Rightarrow> real list \<Rightarrow> real \<Rightarrow> error + tensor" where
  "F_layer_norm x n w b e =
     (let r = length (shape x) in
      if 1 \<le> r \<and> shape x ! (r - 1) = n \<and> length w = n \<and> length b = n
      then Inr (tensor_of (shape x)
             (\<lambda>idx.
                let row = map (\<lambda>k. elem x (idx[r - 1 := k])) [0..<n];
                    mu = sum_list row / real n;
                    var = sum_list (map (\<lambda>v. (v - mu) ^ 2) row) / real n
                in (elem x idx - mu) / sqrt (var + e) * w ! (idx ! (r - 1)) + b ! (idx ! (r - 1))))
      else Inl RuntimeError)"

section \<open>LayerNorm\<close>

text \<open>
  The class \<open>LayerNorm\<close> of \<open>models/ortho_convnext.py\<close>. The field \<open>normalized_shape\<close>
  holds the only component of the 1-tuple \<open>(normalized_shape,)\<close> that the constructor stores.
\<close>

record LayerNorm =
  weight :: "real list"
  bias :: "real list"
  eps :: real
  data_format :: string
  normalized_shape :: nat

definition LayerNorm_init :: "nat \<Rightarrow> real \<Rightarrow> string \<Rightarrow> error + LayerNorm" where
  "LayerNorm_init n e fmt =
     (if fmt \<notin> set [''channels_last'', ''channels_first'']
      then Inl NotImplementedError
      else Inr \<lparr>weight = replicate n 1, bias = replicate n 0, eps = e,
                data_format = fmt, normalized_shape = n\<rparr>)"

text \<open>
  \<open>LayerNorm.forward\<close>. The result \<open>Inr None\<close> is Python's \<open>None\<close>, which the method returns
  when neither branch is taken.
\<close>

definition LayerNorm_forward :: "LayerNorm \<Rightarrow> tensor \<Rightarrow> error + tensor option" where
  "LayerNorm_forward self x =
     (if data_format self = ''channels_last''
      then bind (F_layer_norm x (normalized_shape self) (weight self) (bias self) (eps self))
             (\<lambda>y. Inr (Some y))
      else if data_format self = ''channels_first''
      then
        bind (mean_keepdim 1 x) (\<lambda>u.
        bind (tensor_sub x u) (\<lambda>d.
        bind (mean_keepdim 1 (pow2 d)) (\<lambda>s.
        bind (tensor_sub x u) (\<lambda>d'.
        bind (tensor_div d' (tensor_sqrt (add_scalar s (eps self)))) (\<lambda>x.
        bind (tensor_mul (column (weight self)) x) (\<lambda>wx.
        bind (tensor_add wx (column (bias self))) (\<lambda>x.
        Inr (Some x))))))))
      else Inr None)"

subsection \<open>The normalisation, as stated\<close>

text \<open>
  The reading of the normalisation over the channel dimension of a tensor of shape
  \<open>(N, C, H, W)\<close> that the two code paths are compared with: the mean over the channels,
  the biased variance over the channels, and the normalised, scaled and shifted element.
\<close>

definition channel_mean :: "tensor \<Rightarrow> nat \<Rightarrow> nat \<Rightarrow> nat \<Rightarrow> real" where
  "channel_mean x n h w =
     sum_list (map (\<lambda>k. elem x [n, k, h, w]) [0..<shape x ! 1]) / real (shape x ! 1)"

definition channel_variance :: "tensor \<Rightarrow> nat \<Rightarrow> nat \<Rightarrow> nat \<Rightarrow> real" where
  "channel_variance x n h w =
     sum_list (map (\<lambda>k. (elem x [n, k, h, w] - channel_mean x n h w) ^ 2) [0..<shape x ! 1])
       / real (shape x ! 1)"

definition normalize_channels :: "real list \<Rightarrow> real list \<Rightarrow> real \<Rightarrow> tensor \<Rightarrow> tensor" where
  "normalize_channels w b e x =
     tensor_of (shape x)
       (\<lambda>idx. w ! (idx ! 1)
               * ((elem x idx - channel_mean x (idx ! 0) (idx ! 2) (idx ! 3))
                  / sqrt (channel_variance x (idx ! 0) (idx ! 2) (idx ! 3) + e))
               + b ! (idx ! 1))"

section \<open>Modules\<close>

text \<open>
  The modules of \<open>models/ortho_convnext.py\<close> and the library modules they are built from.
  A library module is described by the arguments of its constructor; its parameters by the
  in-place operations that the modelled code has applied to them since the library
  constructed them, oldest first (the random draws themselves are outside the model).
\<close>

datatype param_op = TruncNormal real | Constant real | MulScalar real

record Conv2d =
  in_channels :: nat
  out_channels :: nat
  kernel_size :: nat
  stride :: nat
  padding :: nat
  groups :: nat
  conv_weight :: "param_op list"
  conv_bias :: "param_op list"

record Linear =
  in_features :: nat
  out_features :: nat
  lin_weight :: "param_op list"
  lin_bias :: "param_op list"

text \<open>
  The activation classes, the values of the keyword arguments bound to them, and
  \<open>partial(cls, **kw)\<close>: a class with keyword arguments bound, called later with no argument.
  \<open>PModule GELU\<close> is the module instance \<open>nn.GELU()\<close>.
\<close>

datatype act_class = GELU | HermiteActivation | FourierActivation | TropicalActivation

datatype pyarg = PInt int | PBool bool | PModule act_class

type_synonym act_factory = "act_class \<times> (string \<times> pyarg) list"

definition partial :: "act_class \<Rightarrow> (string \<times> pyarg) list \<Rightarrow> act_factory" where
  "partial cls kw = (cls, kw)"

datatype module =
    MConv2d Conv2d
  | MLinear Linear
  | MLayerNorm LayerNorm
  | NNLayerNorm nat real
  | Activation act_class "(string \<times> pyarg) list"
  | DropPath real
  | Identity
  | Sequential "module list"
  | Block (dwconv: module) (norm_layer: module) (pwconv1: module) (act: module)
      (pwconv2: module) (gamma: "real list option") (drop_path: module)
  | ConvNeXt (downsample_layers: "module list") (stages: "module list")
      (final_norm: module) (head: module)

text \<open>\<open>act()\<close>: the activation that a factory builds.\<close>

definition instantiate :: "act_factory \<Rightarrow> module" where
  "instantiate f = Activation (fst f) (snd f)"

subsection \<open>Block\<close>

definition Block_init :: "nat \<Rightarrow> real \<Rightarrow> real \<Rightarrow> act_factory \<Rightarrow> error + module" where
  "Block_init dim_arg drop_path_arg layer_scale_init_value_arg act_arg =
     bind (LayerNorm_init dim_arg (1 / 10 ^ 6) ''channels_last'') (\<lambda>lnorm.
     Inr (Block
       (MConv2d \<lparr>in_channels = dim_arg, out_channels = dim_arg, kernel_size = 7, stride = 1,
                 padding = 3, groups = dim_arg, conv_weight = [], conv_bias = []\<rparr>)
       (MLayerNorm lnorm)
       (MLinear \<lparr>in_features = dim_arg, out_features = 4 * dim_arg, lin_weight = [], lin_bias = []\<rparr>)
       (instantiate act_arg)
       (MLinear \<lparr>in_features = 4 * dim_arg, out_features = dim_arg, lin_weight = [], lin_bias = []\<rparr>)
       (if layer_scale_init_value_arg > 0
        then Some (replicate dim_arg (layer_scale_init_value_arg * 1)) else None)
       (if drop_path_arg > 0 then DropPath drop_path_arg else Identity)))"

text \<open>
  \<open>Block.forward\<close>. The submodules are given as the functions that calling them computes;
  \<open>gamma\<close> is the parameter itself.
\<close>

type_synonym callable = "tensor \<Rightarrow> error + tensor"

definition Block_forward ::
  "callable \<Rightarrow> callable \<Rightarrow> callable \<Rightarrow> callable \<Rightarrow> callable \<Rightarrow> real list option \<Rightarrow> callable
     \<Rightarrow> tensor \<Rightarrow> error + tensor" where
  "Block_forward self_dwconv self_norm self_pwconv1 self_act self_pwconv2 self_gamma
       self_drop_path x =
     (let input = x in
      bind (self_dwconv x) (\<lambda>x.
      bind (permute x [0, 2, 3, 1]) (\<lambda>x.
      bind (self_norm x) (\<lambda>x.
      bind (self_pwconv1 x) (\<lambda>x.
      bind (self_act x) (\<lambda>x.
      bind (self_pwconv2 x) (\<lambda>x.
      bind (case self_gamma of None \<Rightarrow> Inr x | Some g \<Rightarrow> tensor_mul (vector g) x) (\<lambda>x.
      bind (permute x [0, 3, 1, 2]) (\<lambda>x.
      bind (self_drop_path x) (\<lambda>d.
      tensor_add input d))))))))))"

subsection \<open>ConvNeXt\<close>

text \<open>
  The arguments of \<open>ConvNeXt.__init__\<close>. Channel counts and depths are natural numbers;
  rates and scales are reals.
\<close>

record ConvNeXt_args =
  in_chans :: nat
  num_classes :: nat
  depths :: "nat list"
  dims :: "nat list"
  drop_path_rate :: real
  layer_scale_init_value :: real
  head_init_scale :: real
  act_factory_arg :: act_factory

text \<open>\<open>torch.linspace(a, b, n)\<close> as a list, and \<open>xs[-1]\<close>.\<close>

definition linspace :: "real \<Rightarrow> real \<Rightarrow> nat \<Rightarrow> real list" where
  "linspace a b n =
     map (\<lambda>k. if n = 1 then a else a + real k * ((b - a) / real (n - 1))) [0..<n]"

definition get_last :: "'a list \<Rightarrow> error + 'a" where
  "get_last xs = (if xs = [] then Inl IndexError else Inr (last xs))"

text \<open>\<open>ConvNeXt._init_weights\<close>.\<close>

definition init_weights :: "module \<Rightarrow> module" where
  "init_weights m =
     (case m of
        MConv2d c \<Rightarrow>
          MConv2d (c\<lparr>conv_weight := conv_weight c @ [TruncNormal (2 / 100)],
                      conv_bias := conv_bias c @ [Constant 0]\<rparr>)
      | MLinear l \<Rightarrow>
          MLinear (l\<lparr>lin_weight := lin_weight l @ [TruncNormal (2 / 100)],
                      lin_bias := lin_bias l @ [Constant 0]\<rparr>)
      | _ \<Rightarrow> m)"

text \<open>
  \<open>nn.Module.apply(fn)\<close>: \<open>fn\<close> on every submodule, children first, then on the module
  itself. (The two \<open>ModuleList\<close> containers of a \<open>ConvNeXt\<close> are the lists themselves here.)
\<close>

fun module_apply :: "(module \<Rightarrow> module) \<Rightarrow> module \<Rightarrow> module" where
  "module_apply fn (Sequential ms) = fn (Sequential (map (module_apply fn) ms))"
| "module_apply fn (Block dw n p1 a p2 g dp) =
     fn (Block (module_apply fn dw) (module_apply fn n) (module_apply fn p1)
           (module_apply fn a) (module_apply fn p2) g (module_apply fn dp))"
| "module_apply fn (ConvNeXt ds st n h) =
     fn (ConvNeXt (map (module_apply fn) ds) (map (module_apply fn) st)
           (module_apply fn n) (module_apply fn h))"
| "module_apply fn m = fn m"

text \<open>\<open>self.head.weight.data.mul_(c)\<close> and \<open>self.head.bias.data.mul_(c)\<close>.\<close>

definition head_weight_mul :: "real \<Rightarrow> module \<Rightarrow> error + module" where
  "head_weight_mul c self =
     (case self of
        ConvNeXt ds st n (MLinear l) \<Rightarrow>
          Inr (ConvNeXt ds st n (MLinear (l\<lparr>lin_weight := lin_weight l @ [MulScalar c]\<rparr>)))
      | _ \<Rightarrow> Inl AttributeError)"

definition head_bias_mul :: "real \<Rightarrow> module \<Rightarrow> error + module" where
  "head_bias_mul c self =
     (case self of
        ConvNeXt ds st n (MLinear l) \<Rightarrow>
          Inr (ConvNeXt ds st n (MLinear (l\<lparr>lin_bias := lin_bias l @ [MulScalar c]\<rparr>)))
      | _ \<Rightarrow> Inl AttributeError)"

text \<open>The body of the first loop of \<open>ConvNeXt.__init__\<close>: one intermediate downsampling layer.\<close>

definition downsample_layer_init :: "nat list \<Rightarrow> nat \<Rightarrow> error + module" where
  "downsample_layer_init ds i =
     bind (get ds i) (\<lambda>d.
     bind (LayerNorm_init d (1 / 10 ^ 6) ''channels_first'') (\<lambda>lnorm.
     bind (get ds i) (\<lambda>d_in.
     bind (get ds (i + 1)) (\<lambda>d_out.
     Inr (Sequential
       [MLayerNorm lnorm,
        MConv2d \<lparr>in_channels = d_in, out_channels = d_out, kernel_size = 2, stride = 2,
                 padding = 0, groups = 1, conv_weight = [], conv_bias = []\<rparr>])))))"

text \<open>The second loop: stage \<open>i\<close> is built from \<open>depths[i]\<close> blocks, and \<open>cur\<close> advances.\<close>

definition stage_init :: "ConvNeXt_args \<Rightarrow> real list \<Rightarrow> nat \<Rightarrow> nat \<Rightarrow> error + module" where
  "stage_init a dp_rates cur i =
     bind (get (depths a) i) (\<lambda>n.
     bind (traverse
             (\<lambda>j. bind (get (dims a) i) (\<lambda>dim_arg.
                   bind (get dp_rates (cur + j)) (\<lambda>dp.
                   Block_init dim_arg dp (layer_scale_init_value a) (act_factory_arg a))))
             [0..<n]) (\<lambda>blocks.
     Inr (Sequential blocks)))"

fun stages_loop :: "ConvNeXt_args \<Rightarrow> real list \<Rightarrow> nat list \<Rightarrow> nat \<Rightarrow> error + module list" where
  "stages_loop a dp_rates [] cur = Inr []"
| "stages_loop a dp_rates (i # is) cur =
     bind (stage_init a dp_rates cur i) (\<lambda>stage.
     bind (get (depths a) i) (\<lambda>n.
     bind (stages_loop a dp_rates is (cur + n)) (\<lambda>rest.
     Inr (stage # rest))))"

definition ConvNeXt_init :: "ConvNeXt_args \<Rightarrow> error + module" where
  "ConvNeXt_init a =
     bind (get (dims a) 0) (\<lambda>d0.
     bind (get (dims a) 0) (\<lambda>d0'.
     bind (LayerNorm_init d0' (1 / 10 ^ 6) ''channels_first'') (\<lambda>lnorm.
     let stem = Sequential
           [MConv2d \<lparr>in_channels = in_chans a, out_channels = d0, kernel_size = 4, stride = 4,
                     padding = 0, groups = 1, conv_weight = [], conv_bias = []\<rparr>,
            MLayerNorm lnorm]
     in
     bind (traverse (downsample_layer_init (dims a)) [0..<3]) (\<lambda>downs.
     let dp_rates = linspace 0 (drop_path_rate a) (sum_list (depths a)) in
     bind (stages_loop a dp_rates [0..<4] 0) (\<lambda>sts.
     bind (get_last (dims a)) (\<lambda>d_norm.
     bind (get_last (dims a)) (\<lambda>d_head.
     let self = ConvNeXt (stem # downs) sts (NNLayerNorm d_norm (1 / 10 ^ 6))
                  (MLinear \<lparr>in_features = d_head, out_features = num_classes a,
                            lin_weight = [], lin_bias = []\<rparr>);
         self = module_apply init_weights self
     in
     bind (head_weight_mul (head_init_scale a) self) (\<lambda>self.
     head_bias_mul (head_init_scale a) self))))))))"

text \<open>
  \<open>nn.Sequential.forward\<close>, over the contained modules as callables: each is called on the
  result of the one before.
\<close>

fun Sequential_forward :: "callable list \<Rightarrow> tensor \<Rightarrow> error + tensor" where
  "Sequential_forward [] x = Inr x"
| "Sequential_forward (f # fs) x = bind (f x) (Sequential_forward fs)"

text \<open>\<open>ConvNeXt.forward_features\<close> and \<open>ConvNeXt.forward\<close>, over the submodules as callables.\<close>

fun features_loop :: "callable list \<Rightarrow> callable list \<Rightarrow> nat list \<Rightarrow> tensor \<Rightarrow> error + tensor" where
  "features_loop self_downsample_layers self_stages [] x = Inr x"
| "features_loop self_downsample_layers self_stages (i # is) x =
     bind (get self_downsample_layers i) (\<lambda>layer.
     bind (layer x) (\<lambda>x.
     bind (get self_stages i) (\<lambda>stage.
     bind (stage x) (\<lambda>x.
     features_loop self_downsample_layers self_stages is x))))"

definition forward_features ::
  "callable list \<Rightarrow> callable list \<Rightarrow> callable \<Rightarrow> tensor \<Rightarrow> error + tensor" where
  "forward_features self_downsample_layers self_stages self_norm x =
     bind (features_loop self_downsample_layers self_stages [0..<4] x) (\<lambda>x.
     bind (mean_last2 x) self_norm)"

definition ConvNeXt_forward ::
  "callable list \<Rightarrow> callable list \<Rightarrow> callable \<Rightarrow> callable \<Rightarrow> tensor \<Rightarrow> error + tensor" where
  "ConvNeXt_forward self_downsample_layers self_stages self_norm self_head x =
     bind (forward_features self_downsample_layers self_stages self_norm x) (\<lambda>x.
     self_head x)"

text \<open>
  Calling a module. The kernels of the library modules (convolution, linear layer, the
  library's layer normalisation, the activations, stochastic depth) are the parameter
  \<open>K\<close>; the modules of this file run their \<open>forward\<close>. A \<open>LayerNorm\<close> that returns \<open>None\<close>
  hands its caller a value that is no tensor, on which the caller's next operation raises.
  No \<open>forward\<close> of the file assigns to a module or to a parameter, so calling a module
  is a function of the module and the input, and the module stays as it was.
\<close>

type_synonym kernels = "module \<Rightarrow> tensor \<Rightarrow> error + tensor"

fun forward :: "kernels \<Rightarrow> module \<Rightarrow> tensor \<Rightarrow> error + tensor" where
  "forward K (Sequential ms) = Sequential_forward (map (forward K) ms)"
| "forward K (Block dw n p1 a p2 g dp) =
     Block_forward (forward K dw) (forward K n) (forward K p1) (forward K a) (forward K p2) g
       (forward K dp)"
| "forward K (ConvNeXt ds st n h) =
     ConvNeXt_forward (map (forward K) ds) (map (forward K) st) (forward K n) (forward K h)"
| "forward K (MLayerNorm lnorm) =
     (\<lambda>x. case LayerNorm_forward lnorm x of
             Inl e \<Rightarrow> Inl e
           | Inr None \<Rightarrow> Inl TypeError
           | Inr (Some y) \<Rightarrow> Inr y)"
| "forward K Identity = Inr"
| "forward K m = K m"

subsection \<open>The model constructors\<close>

text \<open>
  The keyword arguments \<open>**kwargs\<close> that a constructor hands on to \<open>ConvNeXt\<close>: the
  keywords that \<open>ConvNeXt.__init__\<close> names, each present or absent, and the names of any
  others, which its own \<open>**kwargs\<close> takes and never reads.
\<close>

record kwargs =
  kw_in_chans :: "nat option"
  kw_num_classes :: "nat option"
  kw_depths :: "nat list option"
  kw_dims :: "nat list option"
  kw_drop_path_rate :: "real option"
  kw_layer_scale_init_value :: "real option"
  kw_head_init_scale :: "real option"
  kw_act :: "act_factory option"
  kw_other :: "string list"

text \<open>
  The call \<open>ConvNeXt(depths=..., dims=..., act=..., **kwargs)\<close>: a keyword given twice is a
  \<open>TypeError\<close>; a keyword not given takes the default of \<open>ConvNeXt.__init__\<close>.
\<close>

definition ConvNeXt_call :: "nat list \<Rightarrow> nat list \<Rightarrow> act_factory \<Rightarrow> kwargs \<Rightarrow> error + module" where
  "ConvNeXt_call depths_arg dims_arg act_arg kw =
     (if kw_depths kw = None \<and> kw_dims kw = None \<and> kw_act kw = None
      then ConvNeXt_init
        \<lparr>in_chans = (case kw_in_chans kw of None \<Rightarrow> 3 | Some v \<Rightarrow> v),
         num_classes = (case kw_num_classes kw of None \<Rightarrow> 1000 | Some v \<Rightarrow> v),
         depths = depths_arg,
         dims = dims_arg,
         drop_path_rate = (case kw_drop_path_rate kw of None \<Rightarrow> 0 | Some v \<Rightarrow> v),
         layer_scale_init_value =
           (case kw_layer_scale_init_value kw of None \<Rightarrow> 1 / 10 ^ 6 | Some v \<Rightarrow> v),
         head_init_scale = (case kw_head_init_scale kw of None \<Rightarrow> 1 | Some v \<Rightarrow> v),
         act_factory_arg = act_arg\<rparr>
      else Inl TypeError)"

type_synonym constructor = "bool \<Rightarrow> bool \<Rightarrow> kwargs \<Rightarrow> error + module"

definition convnext_hermite_tiny :: constructor where
  "convnext_hermite_tiny pretrained in_22k kwargs =
     (let model = ConvNeXt_call [3, 3, 9, 3] [96, 192, 384, 768]
                    (partial HermiteActivation [(''degree'', PInt 3)]) kwargs
      in model)"

definition convnext_hermite_small :: constructor where
  "convnext_hermite_small pretrained in_22k kwargs =
     (let model = ConvNeXt_call [3, 3, 27, 3] [96, 192, 384, 768]
                    (partial HermiteActivation [(''degree'', PInt 3)]) kwargs
      in model)"

definition convnext_hermite_base :: constructor where
  "convnext_hermite_base pretrained in_22k kwargs =
     (let model = ConvNeXt_call [3, 3, 27, 3] [128, 256, 512, 1024]
                    (partial HermiteActivation [(''degree'', PInt 3)]) kwargs
      in model)"

definition convnext_fourier_tiny :: constructor where
  "convnext_fourier_tiny pretrained in_22k kwargs =
     (let model = ConvNeXt_call [3, 3, 9, 3] [96, 192, 384, 768]
                    (partial FourierActivation [(''degree'', PInt 5)]) kwargs
      in model)"

definition convnext_fourier_small :: constructor where
  "convnext_fourier_small pretrained in_22k kwargs =
     (let model = ConvNeXt_call [3, 3, 27, 3] [96, 192, 384, 768]
                    (partial FourierActivation [(''degree'', PInt 5)]) kwargs
      in model)"

definition convnext_fourier_base :: constructor where
  "convnext_fourier_base pretrained in_22k kwargs =
     (let model = ConvNeXt_call [3, 3, 27, 3] [128, 256, 512, 1024]
                    (partial FourierActivation [(''degree'', PInt 5)]) kwargs
      in model)"

definition convnext_tropical_tiny :: constructor where
  "convnext_tropical_tiny pretrained in_22k kwargs =
     (let model = ConvNeXt_call [3, 3, 9, 3] [96, 192, 384, 768]
                    (partial TropicalActivation [(''degree'', PInt 5)]) kwargs
      in model)"

definition convnext_tropical_small :: constructor where
  "convnext_tropical_small pretrained in_22k kwargs =
     (let model = ConvNeXt_call [3, 3, 27, 3] [96, 192, 384, 768]
                    (partial TropicalActivation [(''degree'', PInt 5)]) kwargs
      in model)"

definition convnext_tropical_base :: constructor where
  "convnext_tropical_base pretrained in_22k kwargs =
     (let model = ConvNeXt_call [3, 3, 27, 3] [128, 256, 512, 1024]
                    (partial TropicalActivation [(''degree'', PInt 5)]) kwargs
      in model)"

definition convnext_hermite_deg2_tiny :: constructor where
  "convnext_hermite_deg2_tiny pretrained in_22k kwargs =
     (let model = ConvNeXt_call [3, 3, 9, 3] [96, 192, 384, 768]
                    (partial HermiteActivation [(''degree'', PInt 2)]) kwargs
      in model)"

definition convnext_fourier_deg1_tiny :: constructor where
  "convnext_fourier_deg1_tiny pretrained in_22k kwargs =
     (let model = ConvNeXt_call [3, 3, 9, 3] [96, 192, 384, 768]
                    (partial FourierActivation [(''degree'', PInt 1)]) kwargs
      in model)"

definition convnext_fourier_deg3_tiny :: constructor where
  "convnext_fourier_deg3_tiny pretrained in_22k kwargs =
     (let model = ConvNeXt_call [3, 3, 9, 3] [96, 192, 384, 768]
                    (partial FourierActivation [(''degree'', PInt 3)]) kwargs
      in model)"

definition convnext_fourier_deg4_tiny :: constructor where
  "convnext_fourier_deg4_tiny pretrained in_22k kwargs =
     (let model = ConvNeXt_call [3, 3, 9, 3] [96, 192, 384, 768]
                    (partial FourierActivation [(''degree'', PInt 4)]) kwargs
      in model)"

definition convnext_fourier_deg6_tiny :: constructor where
  "convnext_fourier_deg6_tiny pretrained in_22k kwargs =
     (let model = ConvNeXt_call [3, 3, 9, 3] [96, 192, 384, 768]
                    (partial FourierActivation [(''degree'', PInt 6)]) kwargs
      in model)"

definition convnext_tropical_deg1_tiny :: constructor where
  "convnext_tropical_deg1_tiny pretrained in_22k kwargs =
     (let model = ConvNeXt_call [3, 3, 9, 3] [96, 192, 384, 768]
                    (partial TropicalActivation [(''degree'', PInt 1)]) kwargs
      in model)"

definition convnext_tropical_deg3_tiny :: constructor where
  "convnext_tropical_deg3_tiny pretrained in_22k kwargs =
     (let model = ConvNeXt_call [3, 3, 9, 3] [96, 192, 384, 768]
                    (partial TropicalActivation [(''degree'', PInt 3)]) kwargs
      in model)"

definition convnext_hermite_clamp_tiny :: constructor where
  "convnext_hermite_clamp_tiny pretrained in_22k kwargs =
     (let model = ConvNeXt_call [3, 3, 9, 3] [96, 192, 384, 768]
                    (partial HermiteActivation [(''degree'', PInt 3), (''clamp'', PBool True)]) kwargs
      in model)"

definition convnext_tropical_deg6_tiny :: constructor where
  "convnext_tropical_deg6_tiny pretrained in_22k kwargs =
     (let model = ConvNeXt_call [3, 3, 9, 3] [96, 192, 384, 768]
                    (partial TropicalActivation [(''degree'', PInt 6)]) kwargs
      in model)"

definition convnext_tropical_deg9_tiny :: constructor where
  "convnext_tropical_deg9_tiny pretrained in_22k kwargs =
     (let model = ConvNeXt_call [3, 3, 9, 3] [96, 192, 384, 768]
                    (partial TropicalActivation [(''degree'', PInt 9)]) kwargs
      in model)"

definition convnext_tropical_deg12_tiny :: constructor where
  "convnext_tropical_deg12_tiny pretrained in_22k kwargs =
     (let model = ConvNeXt_call [3, 3, 9, 3] [96, 192, 384, 768]
                    (partial TropicalActivation [(''degree'', PInt 12)]) kwargs
      in model)"

definition convnext_hermite_gelu_tiny :: constructor where
  "convnext_hermite_gelu_tiny pretrained in_22k kwargs =
     (let model = ConvNeXt_call [3, 3, 9, 3] [96, 192, 384, 768]
                    (partial HermiteActivation [(''degree'', PInt 3), (''act_init'', PModule GELU)]) kwargs
      in model)"

definition convnext_fourier_deg6_gelu_tiny :: constructor where
  "convnext_fourier_deg6_gelu_tiny pretrained in_22k kwargs =
     (let model = ConvNeXt_call [3, 3, 9, 3] [96, 192, 384, 768]
                    (partial FourierActivation [(''degree'', PInt 6), (''act_init'', PModule GELU)]) kwargs
      in model)"

definition convnext_tropical_deg12_gelu_tiny :: constructor where
  "convnext_tropical_deg12_gelu_tiny pretrained in_22k kwargs =
     (let model = ConvNeXt_call [3, 3, 9, 3] [96, 192, 384, 768]
                    (partial TropicalActivation [(''degree'', PInt 12), (''act_init'', PModule GELU)]) kwargs
      in model)"

definition convnext_hermite_no_grad_tiny :: constructor where
  "convnext_hermite_no_grad_tiny pretrained in_22k kwargs =
     (let model = ConvNeXt_call [3, 3, 9, 3] [96, 192, 384, 768]
                    (partial HermiteActivation [(''degree'', PInt 3), (''requires_grad'', PBool False)]) kwargs
      in model)"

definition convnext_fourier_deg6_no_grad_tiny :: constructor where
  "convnext_fourier_deg6_no_grad_tiny pretrained in_22k kwargs =
     (let model = ConvNeXt_call [3, 3, 9, 3] [96, 192, 384, 768]
                    (partial FourierActivation [(''degree'', PInt 6), (''requires_grad'', PBool False)]) kwargs
      in model)"

definition convnext_tropical_deg12_no_grad_tiny :: constructor where
  "convnext_tropical_deg12_no_grad_tiny pretrained in_22k kwargs =
     (let model = ConvNeXt_call [3, 3, 9, 3] [96, 192, 384, 768]
                    (partial TropicalActivation [(''degree'', PInt 12), (''requires_grad'', PBool False)]) kwargs
      in model)"

text \<open>
  The function definitions of the module, in the order of the file: the name, the decorators
  and the function.
\<close>

record fn_def =
  fn_name :: string
  fn_decorators :: "string list"
  fn_body :: constructor

definition module_functions :: "fn_def list" where
  "module_functions =
     [\<lparr>fn_name = ''convnext_hermite_tiny'', fn_decorators = [''register_model''], fn_body = convnext_hermite_tiny\<rparr>,
      \<lparr>fn_name = ''convnext_hermite_small'', fn_decorators = [''register_model''], fn_body = convnext_hermite_small\<rparr>,
      \<lparr>fn_name = ''convnext_hermite_base'', fn_decorators = [''register_model''], fn_body = convnext_hermite_base\<rparr>,
      \<lparr>fn_name = ''convnext_fourier_tiny'', fn_decorators = [''register_model''], fn_body = convnext_fourier_tiny\<rparr>,
      \<lparr>fn_name = ''convnext_fourier_small'', fn_decorators = [''register_model''], fn_body = convnext_fourier_small\<rparr>,
      \<lparr>fn_name = ''convnext_fourier_base'', fn_decorators = [''register_model''], fn_body = convnext_fourier_base\<rparr>,
      \<lparr>fn_name = ''convnext_tropical_tiny'', fn_decorators = [''register_model''], fn_body = convnext_tropical_tiny\<rparr>,
      \<lparr>fn_name = ''convnext_tropical_small'', fn_decorators = [''register_model''], fn_body = convnext_tropical_small\<rparr>,
      \<lparr>fn_name = ''convnext_tropical_base'', fn_decorators = [''register_model''], fn_body = convnext_tropical_base\<rparr>,
      \<lparr>fn_name = ''convnext_hermite_deg2_tiny'', fn_decorators = [''register_model''], fn_body = convnext_hermite_deg2_tiny\<rparr>,
      \<lparr>fn_name = ''convnext_fourier_deg1_tiny'', fn_decorators = [''register_model''], fn_body = convnext_fourier_deg1_tiny\<rparr>,
      \<lparr>fn_name = ''convnext_fourier_deg3_tiny'', fn_decorators = [''register_model''], fn_body = convnext_fourier_deg3_tiny\<rparr>,
      \<lparr>fn_name = ''convnext_fourier_deg4_tiny'', fn_decorators = [''register_model''], fn_body = convnext_fourier_deg4_tiny\<rparr>,
      \<lparr>fn_name = ''convnext_fourier_deg6_tiny'', fn_decorators = [''register_model''], fn_body = convnext_fourier_deg6_tiny\<rparr>,
      \<lparr>fn_name = ''convnext_tropical_deg1_tiny'', fn_decorators = [''register_model''], fn_body = convnext_tropical_deg1_tiny\<rparr>,
      \<lparr>fn_name = ''convnext_tropical_deg3_tiny'', fn_decorators = [''register_model''], fn_body = convnext_tropical_deg3_tiny\<rparr>,
      \<lparr>fn_name = ''convnext_hermite_clamp_tiny'', fn_decorators = [''register_model''], fn_body = convnext_hermite_clamp_tiny\<rparr>,
      \<lparr>fn_name = ''convnext_tropical_deg6_tiny'', fn_decorators = [''register_model''], fn_body = convnext_tropical_deg6_tiny\<rparr>,
      \<lparr>fn_name = ''convnext_tropical_deg9_tiny'', fn_decorators = [''register_model''], fn_body = convnext_tropical_deg9_tiny\<rparr>,
      \<lparr>fn_name = ''convnext_tropical_deg12_tiny'', fn_decorators = [''register_model''], fn_body = convnext_tropical_deg12_tiny\<rparr>,
      \<lparr>fn_name = ''convnext_hermite_gelu_tiny'', fn_decorators = [''register_model''], fn_body = convnext_hermite_gelu_tiny\<rparr>,
      \<lparr>fn_name = ''convnext_fourier_deg6_gelu_tiny'', fn_decorators = [''register_model''], fn_body = convnext_fourier_deg6_gelu_tiny\<rparr>,
      \<lparr>fn_name = ''convnext_tropical_deg12_gelu_tiny'', fn_decorators = [''register_model''], fn_body = convnext_tropical_deg12_gelu_tiny\<rparr>,
      \<lparr>fn_name = ''convnext_hermite_no_grad_tiny'', fn_decorators = [''register_model''], fn_body = convnext_hermite_no_grad_tiny\<rparr>,
      \<lparr>fn_name = ''convnext_fourier_deg6_no_grad_tiny'', fn_decorators = [''register_model''], fn_body = convnext_fourier_deg6_no_grad_tiny\<rparr>,
      \<lparr>fn_name = ''convnext_tropical_deg12_no_grad_tiny'', fn_decorators = [''register_model''], fn_body = convnext_tropical_deg12_no_grad_tiny\<rparr>]"

subsection \<open>Registration\<close>





text \<open>The table \<open>model_urls\<close> of the module. No function of the module reads it.\<close>

definition model_urls :: "(string \<times> string) list" where
  "model_urls =
     [(''convnext_tiny_1k'', ''https://dl.fbaipublicfiles.com/convnext/convnext_tiny_1k_224_ema.pth''),
      (''convnext_small_1k'', ''https://dl.fbaipublicfiles.com/convnext/convnext_small_1k_224_ema.pth''),
      (''convnext_base_1k'', ''https://dl.fbaipublicfiles.com/convnext/convnext_base_1k_224_ema.pth''),
      (''convnext_large_1k'', ''https://dl.fbaipublicfiles.com/convnext/convnext_large_1k_224_ema.pth''),
      (''convnext_tiny_22k'', ''https://dl.fbaipublicfiles.com/convnext/convnext_tiny_22k_224.pth''),
      (''convnext_small_22k'', ''https://dl.fbaipublicfiles.com/convnext/convnext_small_22k_224.pth''),
      (''convnext_base_22k'', ''https://dl.fbaipublicfiles.com/convnext/convnext_base_22k_224.pth''),
      (''convnext_large_22k'', ''https://dl.fbaipublicfiles.com/convnext/convnext_large_22k_224.pth''),
      (''convnext_xlarge_22k'', ''https://dl.fbaipublicfiles.com/convnext/convnext_xlarge_22k_224.pth'')]"

section \<open>The package mmcv_custom\<close>

text \<open>
  \<open>object_detection/mmcv_custom/__init__.py\<close>: the names it imports, each with the
  submodule it comes from, and its \<open>__all__\<close>.
\<close>

definition mmcv_custom_imports :: "(string \<times> string) list" where
  "mmcv_custom_imports =
     [(''checkpoint'', ''load_checkpoint''),
      (''layer_decay_optimizer_constructor'', ''LearningRateDecayOptimizerConstructor''),
      (''customized_text'', ''CustomizedTextLoggerHook'')]"

definition mmcv_custom_all :: "string list" where
  "mmcv_custom_all =
     [''load_checkpoint'',
      ''LearningRateDecayOptimizerConstructor'',
      ''CustomizedTextLoggerHook'']"

section \<open>Observations on built models\<close>

text \<open>
  \<open>submodules m\<close> lists \<open>m\<close> and every module below it, as \<open>nn.Module.modules()\<close> does;
  \<open>blocks_of m\<close> lists the blocks of the stages of a \<open>ConvNeXt\<close>.
\<close>

fun submodules :: "module \<Rightarrow> module list" where
  "submodules (Sequential ms) = Sequential ms # concat (map submodules ms)"
| "submodules (Block dw n p1 a p2 g dp) =
     Block dw n p1 a p2 g dp
       # submodules dw @ submodules n @ submodules p1 @ submodules a @ submodules p2
       @ submodules dp"
| "submodules (ConvNeXt ds st n h) =
     ConvNeXt ds st n h
       # concat (map submodules ds) @ concat (map submodules st) @ submodules n @ submodules h"
| "submodules m = [m]"

definition stage_blocks :: "module \<Rightarrow> module list" where
  "stage_blocks s = (case s of Sequential bs \<Rightarrow> bs | _ \<Rightarrow> [])"

definition blocks_of :: "module \<Rightarrow> module list" where
  "blocks_of m = concat (map stage_blocks (stages m))"

text \<open>
  The state of the parameters of a convolution or linear layer that has been initialised
  once, by \<open>trunc_normal_(weight, std=.02)\<close> and \<open>constant_(bias, 0)\<close>, and by nothing else.
\<close>

definition initialized_once :: "module \<Rightarrow> bool" where
  "initialized_once m =
     (case m of
        MConv2d c \<Rightarrow> conv_weight c = [TruncNormal (2 / 100)] \<and> conv_bias c = [Constant 0]
      | MLinear l \<Rightarrow> lin_weight l = [TruncNormal (2 / 100)] \<and> lin_bias l = [Constant 0]
      | _ \<Rightarrow> True)"

subsection \<open>What a constructor's name says\<close>

text \<open>
  The activation family and the degree that the name of a constructor states: the family
  is the word after \<open>convnext\<close>; the degree is the number of a word \<open>degN\<close> when the name
  has one, and otherwise 3 for the Hermite family and 5 for the other two.
\<close>

fun split_on :: "char \<Rightarrow> string \<Rightarrow> string list" where
  "split_on c [] = [[]]"
| "split_on c (x # xs) =
     (if x = c then [] # split_on c xs
      else (case split_on c xs of [] \<Rightarrow> [[x]] | w # ws \<Rightarrow> (x # w) # ws))"

definition digit_value :: "char \<Rightarrow> nat option" where
  "digit_value c =
     (if c \<in> set ''0123456789'' then Some (of_char c - of_char CHR ''0'') else None)"

fun number_from :: "nat \<Rightarrow> string \<Rightarrow> nat option" where
  "number_from acc [] = Some acc"
| "number_from acc (c # cs) =
     (case digit_value c of None \<Rightarrow> None | Some d \<Rightarrow> number_from (10 * acc + d) cs)"

definition degree_word :: "string \<Rightarrow> nat option" where
  "degree_word w =
     (if take 3 w = ''deg'' \<and> drop 3 w \<noteq> [] then number_from 0 (drop 3 w) else None)"

definition named_family :: "string \<Rightarrow> act_class option" where
  "named_family name =
     (case split_on CHR ''_'' name of
        c # f # rest \<Rightarrow>
          (if c \<noteq> ''convnext'' then None
           else if f = ''hermite'' then Some HermiteActivation
           else if f = ''fourier'' then Some FourierActivation
           else if f = ''tropical'' then Some TropicalActivation
           else None)
      | _ \<Rightarrow> None)"

definition named_degree :: "string \<Rightarrow> int" where
  "named_degree name =
     (case List.map_filter degree_word (split_on CHR ''_'' name) of
        n # rest \<Rightarrow> int n
      | [] \<Rightarrow> (if named_family name = Some HermiteActivation then 3 else 5))"

text \<open>The branch of a block, as stated: the eight steps in their order.\<close>

definition layer_scale :: "real list option \<Rightarrow> callable" where
  "layer_scale g x = (case g of None \<Rightarrow> Inr x | Some w \<Rightarrow> tensor_mul (vector w) x)"

definition Block_branch :: "kernels \<Rightarrow> module \<Rightarrow> callable" where
  "Block_branch K b =
     Sequential_forward
       [forward K (dwconv b),
        (\<lambda>x. permute x [0, 2, 3, 1]),
        forward K (norm_layer b),
        forward K (pwconv1 b),
        forward K (act b),
        forward K (pwconv2 b),
        layer_scale (gamma b),
        (\<lambda>x. permute x [0, 3, 1, 2])]"

subsection \<open>The constructors as a table\<close>

text \<open>
  What the constructors differ in: the name, \<open>depths\<close>, \<open>dims\<close>, and the class and the
  keyword arguments of the activation factory. \<open>variant_def\<close> is the function definition that
  a row stands for; that the rows are the definitions of the module is proved below.
\<close>

type_synonym variant = "string \<times> nat list \<times> nat list \<times> act_class \<times> (string \<times> pyarg) list"

definition variant_def :: "variant \<Rightarrow> fn_def" where
  "variant_def v =
     (case v of (name, ds, dm, cls, kws) \<Rightarrow>
        \<lparr>fn_name = name, fn_decorators = [''register_model''],
         fn_body = (\<lambda>pretrained in_22k kw. ConvNeXt_call ds dm (partial cls kws) kw)\<rparr>)"

definition variant_table :: "variant list" where
  "variant_table =
     [(''convnext_hermite_tiny'', [3, 3, 9, 3], [96, 192, 384, 768], HermiteActivation,
        [(''degree'', PInt 3)]),
      (''convnext_hermite_small'', [3, 3, 27, 3], [96, 192, 384, 768], HermiteActivation,
        [(''degree'', PInt 3)]),
      (''convnext_hermite_base'', [3, 3, 27, 3], [128, 256, 512, 1024], HermiteActivation,
        [(''degree'', PInt 3)]),
      (''convnext_fourier_tiny'', [3, 3, 9, 3], [96, 192, 384, 768], FourierActivation,
        [(''degree'', PInt 5)]),
      (''convnext_fourier_small'', [3, 3, 27, 3], [96, 192, 384, 768], FourierActivation,
        [(''degree'', PInt 5)]),
      (''convnext_fourier_base'', [3, 3, 27, 3], [128, 256, 512, 1024], FourierActivation,
        [(''degree'', PInt 5)]),
      (''convnext_tropical_tiny'', [3, 3, 9, 3], [96, 192, 384, 768], TropicalActivation,
        [(''degree'', PInt 5)]),
      (''convnext_tropical_small'', [3, 3, 27, 3], [96, 192, 384, 768], TropicalActivation,
        [(''degree'', PInt 5)]),
      (''convnext_tropical_base'', [3, 3, 27, 3], [128, 256, 512, 1024], TropicalActivation,
        [(''degree'', PInt 5)]),
      (''convnext_hermite_deg2_tiny'', [3, 3, 9, 3], [96, 192, 384, 768], HermiteActivation,
        [(''degree'', PInt 2)]),
      (''convnext_fourier_deg1_tiny'', [3, 3, 9, 3], [96, 192, 384, 768], FourierActivation,
        [(''degree'', PInt 1)]),
      (''convnext_fourier_deg3_tiny'', [3, 3, 9, 3], [96, 192, 384, 768], FourierActivation,
        [(''degree'', PInt 3)]),
      (''convnext_fourier_deg4_tiny'', [3, 3, 9, 3], [96, 192, 384, 768], FourierActivation,
        [(''degree'', PInt 4)]),
      (''convnext_fourier_deg6_tiny'', [3, 3, 9, 3], [96, 192, 384, 768], FourierActivation,
        [(''degree'', PInt 6)]),
      (''convnext_tropical_deg1_tiny'', [3, 3, 9, 3], [96, 192, 384, 768], TropicalActivation,
        [(''degree'', PInt 1)]),
      (''convnext_tropical_deg3_tiny'', [3, 3, 9, 3], [96, 192, 384, 768], TropicalActivation,
        [(''degree'', PInt 3)]),
      (''convnext_hermite_clamp_tiny'', [3, 3, 9, 3], [96, 192, 384, 768], HermiteActivation,
        [(''degree'', PInt 3), (''clamp'', PBool True)]),
      (''convnext_tropical_deg6_tiny'', [3, 3, 9, 3], [96, 192, 384, 768], TropicalActivation,
        [(''degree'', PInt 6)]),
      (''convnext_tropical_deg9_tiny'', [3, 3, 9, 3], [96, 192, 384, 768], TropicalActivation,
        [(''degree'', PInt 9)]),
      (''convnext_tropical_deg12_tiny'', [3, 3, 9, 3], [96, 192, 384, 768], TropicalActivation,
        [(''degree'', PInt 12)]),
      (''convnext_hermite_gelu_tiny'', [3, 3, 9, 3], [96, 192, 384, 768], HermiteActivation,
        [(''degree'', PInt 3), (''act_init'', PModule GELU)]),
      (''convnext_fourier_deg6_gelu_tiny'', [3, 3, 9, 3], [96, 192, 384, 768], FourierActivation,
        [(''degree'', PInt 6), (''act_init'', PModule GELU)]),
      (''convnext_tropical_deg12_gelu_tiny'', [3, 3, 9, 3], [96, 192, 384, 768], TropicalActivation,
        [(''degree'', PInt 12), (''act_init'', PModule GELU)]),
      (''convnext_hermite_no_grad_tiny'', [3, 3, 9, 3], [96, 192, 384, 768], HermiteActivation,
        [(''degree'', PInt 3), (''requires_grad'', PBool False)]),
      (''convnext_fourier_deg6_no_grad_tiny'', [3, 3, 9, 3], [96, 192, 384, 768], FourierActivation,
        [(''degree'', PInt 6), (''requires_grad'', PBool False)]),
      (''convnext_tropical_deg12_no_grad_tiny'', [3, 3, 9, 3], [96, 192, 384, 768], TropicalActivation,
        [(''degree'', PInt 12), (''requires_grad'', PBool False)])]"

text \<open>A block as \<open>Block.__init__\<close> returns it, for some dimension, rate and scale.\<close>

definition built_block :: "act_factory \<Rightarrow> module \<Rightarrow> bool" where
  "built_block a b \<longleftrightarrow> (\<exists>d dp l. Block_init d dp l a = Inr b)"

text \<open>No keyword arguments.\<close>

definition no_kwargs :: kwargs where
  "no_kwargs =
     \<lparr>kw_in_chans = None, kw_num_classes = None, kw_depths = None, kw_dims = None,
      kw_drop_path_rate = None, kw_layer_scale_init_value = None, kw_head_init_scale = None,
      kw_act = None, kw_other = []\<rparr>"

text \<open>The arguments with which \<open>convnext_hermite_tiny\<close> calls \<open>ConvNeXt\<close> when it is given none.\<close>

definition tiny_args :: ConvNeXt_args where
  "tiny_args =
     \<lparr>in_chans = 3, num_classes = 1000, depths = [3, 3, 9, 3], dims = [96, 192, 384, 768],
      drop_path_rate = 0, layer_scale_init_value = 1 / 10 ^ 6, head_init_scale = 1,
      act_factory_arg = partial HermiteActivation [(''degree'', PInt 3)]\<rparr>"

section \<open>Properties of the tensor operations\<close>

lemma tensor_of_cong:
  "(\<And>idx. valid_index s idx \<Longrightarrow> f idx = g idx) \<Longrightarrow> tensor_of s f = tensor_of s g"
  by (auto simp: tensor_of_def fun_eq_iff)

lemma shape_tensor_of [simp]: "shape (tensor_of s f) = s"
  by (simp add: tensor_of_def)

lemma elem_tensor_of: "elem (tensor_of s f) idx = (if valid_index s idx then f idx else 0)"
  by (simp add: tensor_of_def)

lemma valid_index4:
  "valid_index [N, C, H, W] idx \<longleftrightarrow>
     (\<exists>n c h w. idx = [n, c, h, w] \<and> n < N \<and> c < C \<and> h < H \<and> w < W)"
  by (auto simp: valid_index_def list_all2_Cons2)

lemma valid_index3:
  "valid_index [C, H, W] idx \<longleftrightarrow>
     (\<exists>c h w. idx = [c, h, w] \<and> c < C \<and> h < H \<and> w < W)"
  by (auto simp: valid_index_def list_all2_Cons2)

lemma valid_index4_Cons [simp]:
  "valid_index [N, C, H, W] [n, c, h, w] \<longleftrightarrow> n < N \<and> c < C \<and> h < H \<and> w < W"
  by (auto simp: valid_index_def)

lemma valid_index3_Cons [simp]:
  "valid_index [C, H, W] [c, h, w] \<longleftrightarrow> c < C \<and> h < H \<and> w < W"
  by (auto simp: valid_index_def)

lemma broadcast_dim_same [simp]: "broadcast_dim a a = Some a"
  by (simp add: broadcast_dim_def)

lemma broadcast_dim_one_left [simp]: "broadcast_dim (Suc 0) a = Some a"
  by (simp add: broadcast_dim_def)

lemma broadcast_dim_one_right [simp]: "broadcast_dim a (Suc 0) = Some a"
  by (simp add: broadcast_dim_def)

lemma broadcast_pick [simp]: "i < d \<Longrightarrow> (if d = Suc 0 then 0 else i) = i"
  by auto

lemma mean_keepdim_channels:
  assumes "shape x = [N, C, H, W]"
  shows "mean_keepdim 1 x =
     Inr (tensor_of [N, 1, H, W]
       (\<lambda>idx. sum_list (map (\<lambda>k. elem x [idx ! 0, k, idx ! 2, idx ! 3]) [0..<C]) / real C))"
  using assms
  by (auto simp: mean_keepdim_def valid_index4 intro!: tensor_of_cong)

lemma elementwise_same_shape:
  assumes "shape a = [N, C, H, W]" "shape b = [N, C, H, W]"
  shows "elementwise f a b = Inr (tensor_of [N, C, H, W] (\<lambda>idx. f (elem a idx) (elem b idx)))"
  using assms
  by (auto simp: elementwise_def broadcast_shapes_def broadcast_index_def valid_index4
      intro!: tensor_of_cong)

lemma elementwise_keepdim:
  assumes "shape a = [N, C, H, W]" "shape b = [N, 1, H, W]"
  shows "elementwise f a b =
     Inr (tensor_of [N, C, H, W] (\<lambda>idx. f (elem a idx) (elem b [idx ! 0, 0, idx ! 2, idx ! 3])))"
  using assms
  by (auto simp: elementwise_def broadcast_shapes_def broadcast_index_def valid_index4
      intro!: tensor_of_cong)

lemma elementwise_column_left:
  assumes "shape a = [N, C, H, W]" "length w = C"
  shows "elementwise f (column w) a =
     Inr (tensor_of [N, C, H, W] (\<lambda>idx. f (w ! (idx ! 1)) (elem a idx)))"
  using assms
  by (auto simp: elementwise_def broadcast_shapes_def broadcast_index_def valid_index4
      column_def elem_tensor_of intro!: tensor_of_cong)

lemma elementwise_column_right:
  assumes "shape a = [N, C, H, W]" "length w = C"
  shows "elementwise f a (column w) =
     Inr (tensor_of [N, C, H, W] (\<lambda>idx. f (elem a idx) (w ! (idx ! 1))))"
  using assms
  by (auto simp: elementwise_def broadcast_shapes_def broadcast_index_def valid_index4
      column_def elem_tensor_of intro!: tensor_of_cong)

lemma permute_to_channels_last:
  assumes "shape x = [N, C, H, W]"
  shows "permute x [0, 2, 3, 1] =
     Inr (tensor_of [N, H, W, C] (\<lambda>idx. elem x [idx ! 0, idx ! 3, idx ! 1, idx ! 2]))"
  using assms
  by (auto simp: permute_def valid_index4 intro!: tensor_of_cong)

lemma permute_to_channels_first:
  assumes "shape x = [N, H, W, C]"
  shows "permute x [0, 3, 1, 2] =
     Inr (tensor_of [N, C, H, W] (\<lambda>idx. elem x [idx ! 0, idx ! 2, idx ! 3, idx ! 1]))"
  using assms
  by (auto simp: permute_def valid_index4 intro!: tensor_of_cong)

section \<open>Properties of LayerNorm\<close>

lemma channels_first_forward:
  assumes x: "shape x = [N, C, H, W]" and w: "length w = C" and b: "length b = C"
  shows "LayerNorm_forward \<lparr>weight = w, bias = b, eps = e,
            data_format = ''channels_first'', normalized_shape = C\<rparr> x
         = Inr (Some (normalize_channels w b e x))"
proof -
  define u where "u = tensor_of [N, 1, H, W]
       (\<lambda>idx. sum_list (map (\<lambda>k. elem x [idx ! 0, k, idx ! 2, idx ! 3]) [0..<C]) / real C)"
  define d where "d = tensor_of [N, C, H, W] (\<lambda>idx. elem x idx - elem u [idx ! 0, 0, idx ! 2, idx ! 3])"
  define s where "s = tensor_of [N, 1, H, W]
       (\<lambda>idx. sum_list (map (\<lambda>k. elem (pow2 d) [idx ! 0, k, idx ! 2, idx ! 3]) [0..<C]) / real C)"
  define q where "q = tensor_sqrt (add_scalar s e)"
  define y where "y = tensor_of [N, C, H, W] (\<lambda>idx. elem d idx / elem q [idx ! 0, 0, idx ! 2, idx ! 3])"
  define wy where "wy = tensor_of [N, C, H, W] (\<lambda>idx. w ! (idx ! 1) * elem y idx)"
  define z where "z = tensor_of [N, C, H, W] (\<lambda>idx. elem wy idx + b ! (idx ! 1))"
  have 1: "mean_keepdim 1 x = Inr u"
    unfolding u_def by (rule mean_keepdim_channels [OF x])
  have su: "shape u = [N, 1, H, W]" by (simp add: u_def)
  have 2: "tensor_sub x u = Inr d"
    unfolding d_def tensor_sub_def by (rule elementwise_keepdim [OF x su])
  have sd: "shape (pow2 d) = [N, C, H, W]" by (simp add: d_def pow2_def tensor_map_def)
  have 3: "mean_keepdim 1 (pow2 d) = Inr s"
    unfolding s_def by (rule mean_keepdim_channels [OF sd])
  have sq: "shape q = [N, 1, H, W]"
    by (simp add: q_def s_def tensor_sqrt_def add_scalar_def tensor_map_def)
  have sd': "shape d = [N, C, H, W]" by (simp add: d_def)
  have 4: "tensor_div d q = Inr y"
    unfolding y_def tensor_div_def by (rule elementwise_keepdim [OF sd' sq])
  have sy: "shape y = [N, C, H, W]" by (simp add: y_def)
  have 5: "tensor_mul (column w) y = Inr wy"
    unfolding wy_def tensor_mul_def by (rule elementwise_column_left [OF sy w])
  have swy: "shape wy = [N, C, H, W]" by (simp add: wy_def)
  have 6: "tensor_add wy (column b) = Inr z"
    unfolding z_def tensor_add_def by (rule elementwise_column_right [OF swy b])
  have fwd: "LayerNorm_forward \<lparr>weight = w, bias = b, eps = e,
            data_format = ''channels_first'', normalized_shape = C\<rparr> x = Inr (Some z)"
    using 1 2 3 4 5 6 by (simp add: LayerNorm_forward_def bind_def q_def)
  have u_at: "elem u [n, 0, h, w'] = channel_mean x n h w'" if "n < N" "h < H" "w' < W" for n h w'
    using that by (simp add: u_def elem_tensor_of channel_mean_def x)
  have d_at: "elem d [n, c, h, w'] = elem x [n, c, h, w'] - channel_mean x n h w'"
    if "n < N" "c < C" "h < H" "w' < W" for n c h w'
    using that by (simp add: d_def elem_tensor_of u_at)
  have sq_row: "map (\<lambda>k. elem (pow2 d) [n, k, h, w']) [0..<C]
        = map (\<lambda>k. (elem x [n, k, h, w'] - channel_mean x n h w') ^ 2) [0..<C]"
    if "n < N" "h < H" "w' < W" for n h w'
    using that by (simp add: pow2_def tensor_map_def elem_tensor_of sd' d_at)
  have s_at: "elem s [n, 0, h, w'] = channel_variance x n h w'" if "n < N" "h < H" "w' < W" for n h w'
  proof -
    have "elem s [n, 0, h, w'] = sum_list (map (\<lambda>k. elem (pow2 d) [n, k, h, w']) [0..<C]) / real C"
      using that by (simp add: s_def elem_tensor_of)
    also have "\<dots> = sum_list (map (\<lambda>k. (elem x [n, k, h, w'] - channel_mean x n h w') ^ 2) [0..<C]) / real C"
      by (simp only: sq_row [OF that])
    also have "\<dots> = channel_variance x n h w'"
      by (simp add: channel_variance_def x)
    finally show ?thesis .
  qed
  have ss: "shape s = [N, 1, H, W]" by (simp add: s_def)
  have q_at: "elem q [n, 0, h, w'] = sqrt (channel_variance x n h w' + e)"
    if "n < N" "h < H" "w' < W" for n h w'
    using that
    by (simp add: q_def tensor_sqrt_def add_scalar_def tensor_map_def elem_tensor_of s_at ss)
  have "z = normalize_channels w b e x"
    unfolding normalize_channels_def z_def x
    by (rule tensor_of_cong)
       (auto simp: valid_index4 wy_def y_def elem_tensor_of d_at q_at)
  with fwd show ?thesis by simp
qed





text \<open>
  Claim C9. The constructor of \<open>LayerNorm\<close> raises exactly when \<open>data_format\<close> is neither
  \<open>channels_last\<close> nor \<open>channels_first\<close>, and what it raises is \<open>NotImplementedError\<close>. On
  a \<open>LayerNorm\<close> that the constructor returned, \<open>forward\<close> takes one of its two branches:
  it never returns \<open>None\<close>, and it returns a tensor on an input whose channel dimension
  (the last one for \<open>channels_last\<close>, the second of four for \<open>channels_first\<close>) has the
  size the layer was built for.
\<close>

theorem LayerNorm_init_raises_iff_and_forward_returns_tensor:
  "(LayerNorm_init n e fmt = Inl NotImplementedError
      \<longleftrightarrow> fmt \<noteq> ''channels_last'' \<and> fmt \<noteq> ''channels_first'')
   \<and> (\<forall>err. LayerNorm_init n e fmt = Inl err \<longrightarrow> err = NotImplementedError)
   \<and> (\<forall>self x. LayerNorm_init n e fmt = Inr self \<longrightarrow>
         LayerNorm_forward self x \<noteq> Inr None
       \<and> (fmt = ''channels_last'' \<and> shape x \<noteq> [] \<and> last (shape x) = n
            \<longrightarrow> (\<exists>y. LayerNorm_forward self x = Inr (Some y)))
       \<and> (fmt = ''channels_first'' \<and> (\<exists>N H W. shape x = [N, n, H, W])
            \<longrightarrow> (\<exists>y. LayerNorm_forward self x = Inr (Some y))))"
proof (intro conjI allI impI)
  show "LayerNorm_init n e fmt = Inl NotImplementedError
      \<longleftrightarrow> fmt \<noteq> ''channels_last'' \<and> fmt \<noteq> ''channels_first''"
    by (auto simp: LayerNorm_init_def)
next
  fix err assume "LayerNorm_init n e fmt = Inl err"
  then show "err = NotImplementedError"
    by (auto simp: LayerNorm_init_def split: if_splits)
next
  fix self :: LayerNorm and x :: tensor
  assume "LayerNorm_init n e fmt = Inr self"
  then have fmt: "data_format self = fmt" "fmt = ''channels_last'' \<or> fmt = ''channels_first''"
    by (auto simp: LayerNorm_init_def split: if_splits)
  then show "LayerNorm_forward self x \<noteq> Inr None"
    by (auto simp: LayerNorm_forward_def bind_def split: sum.splits)
next
  fix self :: LayerNorm and x :: tensor
  assume init: "LayerNorm_init n e fmt = Inr self"
    and "fmt = ''channels_last'' \<and> shape x \<noteq> [] \<and> last (shape x) = n"
  then have "data_format self = ''channels_last''" "normalized_shape self = n"
      "length (weight self) = n" "length (bias self) = n"
      "shape x ! (length (shape x) - 1) = n" "1 \<le> length (shape x)"
    by (auto simp: LayerNorm_init_def last_conv_nth Suc_le_eq split: if_splits)
  then show "\<exists>y. LayerNorm_forward self x = Inr (Some y)"
    by (simp add: LayerNorm_forward_def F_layer_norm_def bind_def Let_def)
next
  fix self :: LayerNorm and x :: tensor
  assume init: "LayerNorm_init n e fmt = Inr self"
    and "fmt = ''channels_first'' \<and> (\<exists>N H W. shape x = [N, n, H, W])"
  then obtain N H W where x: "shape x = [N, n, H, W]" and fmt: "fmt = ''channels_first''"
    by blast
  from init fmt have self: "self = \<lparr>weight = replicate n 1, bias = replicate n 0, eps = e,
      data_format = ''channels_first'', normalized_shape = n\<rparr>"
    by (auto simp: LayerNorm_init_def)
  show "\<exists>y. LayerNorm_forward self x = Inr (Some y)"
    unfolding self using channels_first_forward [OF x, of "replicate n 1" "replicate n 0" e]
    by simp
qed

theorem LayerNorm_init_raises_iff_and_forward_returns_tensor_witness:
  "LayerNorm_init 2 (1 / 10 ^ 6) ''channels_first''
     = Inr \<lparr>weight = [1, 1], bias = [0, 0], eps = 1 / 10 ^ 6,
            data_format = ''channels_first'', normalized_shape = 2\<rparr>
   \<and> LayerNorm_forward \<lparr>weight = [1, 1], bias = [0, 0], eps = 1 / 10 ^ 6,
        data_format = ''channels_first'', normalized_shape = 2\<rparr>
        (tensor_of [1, 2, 1, 1] (\<lambda>idx. real (idx ! 1))) \<noteq> Inr None
   \<and> (\<exists>y. LayerNorm_forward \<lparr>weight = [1, 1], bias = [0, 0], eps = 1 / 10 ^ 6,
        data_format = ''channels_first'', normalized_shape = 2\<rparr>
        (tensor_of [1, 2, 1, 1] (\<lambda>idx. real (idx ! 1))) = Inr (Some y))"
proof -
  have init: "LayerNorm_init 2 (1 / 10 ^ 6) ''channels_first''
     = Inr \<lparr>weight = [1, 1], bias = [0, 0], eps = 1 / 10 ^ 6,
            data_format = ''channels_first'', normalized_shape = 2\<rparr>"
    by (simp add: LayerNorm_init_def numeral_2_eq_2)
  have shp: "\<exists>N H W. shape (tensor_of [1, 2, 1, 1] (\<lambda>idx. real (idx ! 1))) = [N, 2, H, W]"
    by simp
  from LayerNorm_init_raises_iff_and_forward_returns_tensor
    [of 2 "1 / 10 ^ 6" "''channels_first''"] init shp
  show ?thesis by simp
qed

section \<open>Properties of the constructors\<close>

lemma bind_Inr [simp]: "bind (Inr v) f = f v"
  by (simp add: bind_def)

lemma bind_Inl [simp]: "bind (Inl e) f = Inl e"
  by (simp add: bind_def)

lemma bind_eq_Inr: "bind m f = Inr y \<longleftrightarrow> (\<exists>v. m = Inr v \<and> f v = Inr y)"
  by (cases m) simp_all

lemma get_eq_Inr: "get xs i = Inr v \<longleftrightarrow> i < length xs \<and> v = xs ! i"
  by (auto simp: get_def)

lemma get_in_range: "i < length xs \<Longrightarrow> get xs i = Inr (xs ! i)"
  by (simp add: get_def)

lemma get_last_eq_Inr: "get_last xs = Inr v \<longleftrightarrow> xs \<noteq> [] \<and> v = last xs"
  by (auto simp: get_last_def)

lemma traverse_eq_Inr:
  "traverse f xs = Inr ys \<Longrightarrow> list_all2 (\<lambda>x y. f x = Inr y) xs ys"
  by (induction xs arbitrary: ys) (auto simp: bind_eq_Inr)

lemma traverse_succeeds:
  "(\<And>x. x \<in> set xs \<Longrightarrow> \<exists>y. f x = Inr y) \<Longrightarrow> \<exists>ys. traverse f xs = Inr ys"
proof (induction xs)
  case Nil
  show ?case by simp
next
  case (Cons x xs)
  from Cons.prems obtain y where y: "f x = Inr y" by auto
  from Cons obtain ys where "traverse f xs = Inr ys" by auto
  with y show ?case by simp
qed

lemma upt_0_3: "[0..<3] = [0, 1, 2]"
  by (simp add: upt_rec)

lemma upt_0_4: "[0..<4] = [0, 1, 2, 3]"
  by (simp add: upt_rec)

lemma length_linspace [simp]: "length (linspace a b n) = n"
  by (simp add: linspace_def)

lemma LayerNorm_init_channels_first:
  "LayerNorm_init n e ''channels_first''
     = Inr \<lparr>weight = replicate n 1, bias = replicate n 0, eps = e,
            data_format = ''channels_first'', normalized_shape = n\<rparr>"
  by (simp add: LayerNorm_init_def)

lemma LayerNorm_init_channels_last:
  "LayerNorm_init n e ''channels_last''
     = Inr \<lparr>weight = replicate n 1, bias = replicate n 0, eps = e,
            data_format = ''channels_last'', normalized_shape = n\<rparr>"
  by (simp add: LayerNorm_init_def)

lemma Block_init_eq:
  "Block_init d dp l a =
     Inr (Block
       (MConv2d \<lparr>in_channels = d, out_channels = d, kernel_size = 7, stride = 1,
                 padding = 3, groups = d, conv_weight = [], conv_bias = []\<rparr>)
       (MLayerNorm \<lparr>weight = replicate d 1, bias = replicate d 0, eps = 1 / 10 ^ 6,
            data_format = ''channels_last'', normalized_shape = d\<rparr>)
       (MLinear \<lparr>in_features = d, out_features = 4 * d, lin_weight = [], lin_bias = []\<rparr>)
       (instantiate a)
       (MLinear \<lparr>in_features = 4 * d, out_features = d, lin_weight = [], lin_bias = []\<rparr>)
       (if l > 0 then Some (replicate d l) else None)
       (if dp > 0 then DropPath dp else Identity))"
  by (simp add: Block_init_def LayerNorm_init_channels_last)

lemma built_block_initialized:
  assumes "built_block a b"
  shows "act (module_apply init_weights b) = instantiate a"
    and "\<forall>s \<in> set (submodules (module_apply init_weights b)). initialized_once s"
    and "\<exists>dw n p1 c p2 g dp. module_apply init_weights b = Block dw n p1 c p2 g dp"
  using assms
  by (auto simp: built_block_def Block_init_eq init_weights_def instantiate_def
      initialized_once_def split: if_splits)

lemma stage_init_eq_Inr:
  assumes "stage_init a dp cur i = Inr s"
  shows "\<exists>bs. s = Sequential bs \<and> length bs = depths a ! i \<and> i < length (depths a)
           \<and> (\<forall>b \<in> set bs. built_block (act_factory_arg a) b)"
proof -
  from assms obtain bs where i: "i < length (depths a)"
    and tr: "traverse
             (\<lambda>j. bind (get (dims a) i) (\<lambda>dim_arg.
                   bind (get dp (cur + j)) (\<lambda>r.
                   Block_init dim_arg r (layer_scale_init_value a) (act_factory_arg a))))
             [0..<depths a ! i] = Inr bs"
    and s: "s = Sequential bs"
    by (auto simp: stage_init_def bind_eq_Inr get_eq_Inr)
  from traverse_eq_Inr [OF tr]
  have l2: "list_all2 (\<lambda>j b. bind (get (dims a) i) (\<lambda>dim_arg.
                   bind (get dp (cur + j)) (\<lambda>r.
                   Block_init dim_arg r (layer_scale_init_value a) (act_factory_arg a))) = Inr b)
            [0..<depths a ! i] bs" .
  then have len: "length bs = depths a ! i"
    by (auto dest: list_all2_lengthD)
  have "\<forall>b \<in> set bs. built_block (act_factory_arg a) b"
  proof
    fix b assume "b \<in> set bs"
    then obtain k where k: "k < length bs" "b = bs ! k" by (auto simp: in_set_conv_nth)
    with l2 have "bind (get (dims a) i) (\<lambda>dim_arg.
                   bind (get dp (cur + [0..<depths a ! i] ! k)) (\<lambda>r.
                   Block_init dim_arg r (layer_scale_init_value a) (act_factory_arg a))) = Inr b"
      by (auto simp: list_all2_conv_all_nth)
    then show "built_block (act_factory_arg a) b"
      by (auto simp: bind_eq_Inr built_block_def)
  qed
  with s len i show ?thesis by blast
qed

lemma stages_loop_eq_Inr:
  "stages_loop a dp is cur = Inr sts \<Longrightarrow>
     list_all2 (\<lambda>i s. \<exists>bs. s = Sequential bs \<and> length bs = depths a ! i \<and> i < length (depths a)
           \<and> (\<forall>b \<in> set bs. built_block (act_factory_arg a) b)) is sts"
proof (induction "is" arbitrary: cur sts)
  case Nil
  then show ?case by simp
next
  case (Cons i "is")
  from Cons.prems obtain s rest where s: "stage_init a dp cur i = Inr s"
    and rest: "stages_loop a dp is (cur + depths a ! i) = Inr rest" and sts: "sts = s # rest"
    by (auto simp: bind_eq_Inr get_eq_Inr)
  from Cons.IH [OF rest] stage_init_eq_Inr [OF s] sts show ?case by simp
qed

lemma downsample_layer_init_eq_Inr:
  "downsample_layer_init ds i = Inr m \<longleftrightarrow>
     i + 1 < length ds \<and>
     m = Sequential
       [MLayerNorm \<lparr>weight = replicate (ds ! i) 1, bias = replicate (ds ! i) 0, eps = 1 / 10 ^ 6,
            data_format = ''channels_first'', normalized_shape = ds ! i\<rparr>,
        MConv2d \<lparr>in_channels = ds ! i, out_channels = ds ! (i + 1), kernel_size = 2, stride = 2,
                 padding = 0, groups = 1, conv_weight = [], conv_bias = []\<rparr>]"
  by (auto simp: downsample_layer_init_def bind_eq_Inr get_eq_Inr LayerNorm_init_channels_first)

lemma ConvNeXt_init_eq_Inr:
  assumes "ConvNeXt_init a = Inr m"
  shows "\<exists>downs sts.
      traverse (downsample_layer_init (dims a)) [0..<3] = Inr downs
    \<and> stages_loop a (linspace 0 (drop_path_rate a) (sum_list (depths a))) [0..<4] 0 = Inr sts
    \<and> dims a \<noteq> []
    \<and> m = ConvNeXt
          (map (module_apply init_weights)
             (Sequential
                [MConv2d \<lparr>in_channels = in_chans a, out_channels = dims a ! 0, kernel_size = 4,
                   stride = 4, padding = 0, groups = 1, conv_weight = [], conv_bias = []\<rparr>,
                 MLayerNorm \<lparr>weight = replicate (dims a ! 0) 1, bias = replicate (dims a ! 0) 0,
                   eps = 1 / 10 ^ 6, data_format = ''channels_first'',
                   normalized_shape = dims a ! 0\<rparr>] # downs))
          (map (module_apply init_weights) sts)
          (NNLayerNorm (last (dims a)) (1 / 10 ^ 6))
          (MLinear \<lparr>in_features = last (dims a), out_features = num_classes a,
             lin_weight = [TruncNormal (2 / 100), MulScalar (head_init_scale a)],
             lin_bias = [Constant 0, MulScalar (head_init_scale a)]\<rparr>)"
  using assms
  by (auto simp: ConvNeXt_init_def bind_eq_Inr get_eq_Inr get_last_eq_Inr
      LayerNorm_init_channels_first Let_def init_weights_def head_weight_mul_def
      head_bias_mul_def)

lemma stage_init_succeeds:
  assumes "i < length (depths a)" "i < length (dims a)" "cur + depths a ! i \<le> length dp"
  shows "\<exists>s. stage_init a dp cur i = Inr s"
proof -
  have "\<exists>bs. traverse
             (\<lambda>j. bind (get (dims a) i) (\<lambda>dim_arg.
                   bind (get dp (cur + j)) (\<lambda>r.
                   Block_init dim_arg r (layer_scale_init_value a) (act_factory_arg a))))
             [0..<depths a ! i] = Inr bs"
    using assms by (intro traverse_succeeds) (auto simp: get_in_range Block_init_eq)
  with assms show ?thesis
    by (auto simp: stage_init_def get_in_range)
qed

lemma stages_loop_succeeds:
  assumes "depths a = d0 # d1 # d2 # d3 # rest" "4 \<le> length (dims a)"
    "length dp = sum_list (depths a)"
  shows "\<exists>sts. stages_loop a dp [0, 1, 2, 3] 0 = Inr sts"
proof -
  have "\<exists>s. stage_init a dp 0 0 = Inr s"
    by (rule stage_init_succeeds) (use assms in auto)
  then obtain s0 where s0: "stage_init a dp 0 0 = Inr s0" ..
  have "\<exists>s. stage_init a dp d0 1 = Inr s"
    by (rule stage_init_succeeds) (use assms in auto)
  then obtain s1 where s1: "stage_init a dp d0 1 = Inr s1" ..
  have "\<exists>s. stage_init a dp (d0 + d1) 2 = Inr s"
    by (rule stage_init_succeeds) (use assms in auto)
  then obtain s2 where s2: "stage_init a dp (d0 + d1) 2 = Inr s2" ..
  have "\<exists>s. stage_init a dp (d0 + d1 + d2) 3 = Inr s"
    by (rule stage_init_succeeds) (use assms in auto)
  then obtain s3 where s3: "stage_init a dp (d0 + d1 + d2) 3 = Inr s3" ..
  show ?thesis
    using assms(1) s0 s1 s2 s3 by (simp add: get_def)
qed

lemma ConvNeXt_init_succeeds:
  assumes "4 \<le> length (dims a)" "4 \<le> length (depths a)"
  shows "\<exists>m. ConvNeXt_init a = Inr m"
proof -
  have "\<exists>downs. traverse (downsample_layer_init (dims a)) [0..<3] = Inr downs"
    using assms(1) by (intro traverse_succeeds) (auto simp: downsample_layer_init_eq_Inr)
  then obtain downs where downs: "traverse (downsample_layer_init (dims a)) [0..<3] = Inr downs" ..
  from assms(2) obtain d0 d1 d2 d3 rest where "depths a = d0 # d1 # d2 # d3 # rest"
    by (cases "depths a"; simp; rename_tac xs; case_tac xs; simp; rename_tac ys; case_tac ys; simp;
        rename_tac zs; case_tac zs; simp)
  from stages_loop_succeeds [OF this assms(1), of "linspace 0 (drop_path_rate a) (sum_list (depths a))"]
  obtain sts where sts:
    "stages_loop a (linspace 0 (drop_path_rate a) (sum_list (depths a))) [0..<4] 0 = Inr sts"
    by (auto simp: upt_0_4)
  from assms(1) have ne: "dims a \<noteq> []" "0 < length (dims a)" by auto
  show ?thesis
    using downs sts ne
    by (simp add: ConvNeXt_init_def get_in_range get_last_def LayerNorm_init_channels_first
        Let_def init_weights_def head_weight_mul_def head_bias_mul_def)
qed

lemma module_functions_table: "module_functions = map variant_def variant_table"
  unfolding module_functions_def variant_table_def variant_def_def
    convnext_hermite_tiny_def convnext_hermite_small_def convnext_hermite_base_def
    convnext_fourier_tiny_def convnext_fourier_small_def convnext_fourier_base_def
    convnext_tropical_tiny_def convnext_tropical_small_def convnext_tropical_base_def
    convnext_hermite_deg2_tiny_def convnext_fourier_deg1_tiny_def convnext_fourier_deg3_tiny_def
    convnext_fourier_deg4_tiny_def convnext_fourier_deg6_tiny_def convnext_tropical_deg1_tiny_def
    convnext_tropical_deg3_tiny_def convnext_hermite_clamp_tiny_def convnext_tropical_deg6_tiny_def
    convnext_tropical_deg9_tiny_def convnext_tropical_deg12_tiny_def convnext_hermite_gelu_tiny_def
    convnext_fourier_deg6_gelu_tiny_def convnext_tropical_deg12_gelu_tiny_def
    convnext_hermite_no_grad_tiny_def convnext_fourier_deg6_no_grad_tiny_def
    convnext_tropical_deg12_no_grad_tiny_def Let_def
  by simp

lemma variant_table_names:
  "list_all (\<lambda>(name, ds, dm, cls, kws).
       named_family name = Some cls
     \<and> map_of kws ''degree'' = Some (PInt (named_degree name))
     \<and> length ds = 4 \<and> length dm = 4 \<and> 0 < sum_list ds
     \<and> map_of kws ''clamp''
         = (if name = ''convnext_hermite_clamp_tiny'' then Some (PBool True) else None))
     variant_table"
  by code_simp



lemma stages_of_built:
  assumes "ConvNeXt_init a = Inr m"
  shows "\<exists>b0 b1 b2 b3.
      stages m = map (\<lambda>bs. Sequential (map (module_apply init_weights) bs)) [b0, b1, b2, b3]
    \<and> 4 \<le> length (depths a)
    \<and> length b0 = depths a ! 0 \<and> length b1 = depths a ! 1
    \<and> length b2 = depths a ! 2 \<and> length b3 = depths a ! 3
    \<and> (\<forall>b \<in> set (b0 @ b1 @ b2 @ b3). built_block (act_factory_arg a) b)"
proof -
  from ConvNeXt_init_eq_Inr [OF assms] obtain sts where
    sts: "stages_loop a (linspace 0 (drop_path_rate a) (sum_list (depths a))) [0, 1, 2, 3] 0 = Inr sts"
    and m: "stages m = map (module_apply init_weights) sts"
    by (auto simp: upt_0_4)
  from stages_loop_eq_Inr [OF sts] obtain b0 b1 b2 b3 where
    "sts = [Sequential b0, Sequential b1, Sequential b2, Sequential b3]"
    "length b0 = depths a ! 0" "length b1 = depths a ! 1"
    "length b2 = depths a ! 2" "length b3 = depths a ! 3"
    "3 < length (depths a)"
    "\<forall>b \<in> set b0. built_block (act_factory_arg a) b"
    "\<forall>b \<in> set b1. built_block (act_factory_arg a) b"
    "\<forall>b \<in> set b2. built_block (act_factory_arg a) b"
    "\<forall>b \<in> set b3. built_block (act_factory_arg a) b"
    by (auto simp: list_all2_Cons1)
  with m show ?thesis
    by (intro exI [of _ b0] exI [of _ b1] exI [of _ b2] exI [of _ b3])
       (auto simp: init_weights_def)
qed

lemma blocks_of_built:
  assumes "ConvNeXt_init a = Inr m"
  shows "\<forall>b \<in> set (blocks_of m). act b = instantiate (act_factory_arg a)"
    and "length (blocks_of m) = depths a ! 0 + depths a ! 1 + depths a ! 2 + depths a ! 3"
    and "4 \<le> length (depths a)"
proof -
  from stages_of_built [OF assms] obtain b0 b1 b2 b3 where
    st: "stages m = map (\<lambda>bs. Sequential (map (module_apply init_weights) bs)) [b0, b1, b2, b3]"
    and len: "4 \<le> length (depths a)" "length b0 = depths a ! 0" "length b1 = depths a ! 1"
      "length b2 = depths a ! 2" "length b3 = depths a ! 3"
    and bb: "\<forall>b \<in> set (b0 @ b1 @ b2 @ b3). built_block (act_factory_arg a) b"
    by blast
  have bl: "blocks_of m = map (module_apply init_weights) (b0 @ b1 @ b2 @ b3)"
    by (simp add: blocks_of_def st stage_blocks_def)
  show "\<forall>b \<in> set (blocks_of m). act b = instantiate (act_factory_arg a)"
    using bb by (auto simp: bl built_block_initialized(1))
  show "length (blocks_of m) = depths a ! 0 + depths a ! 1 + depths a ! 2 + depths a ! 3"
    using len by (simp add: bl)
  show "4 \<le> length (depths a)" by (rule len)
qed

lemma downsample_layers_of_built:
  assumes "ConvNeXt_init a = Inr m"
  shows "\<exists>d1 d2 d3.
      downsample_layers m =
        [Sequential
           [MConv2d \<lparr>in_channels = in_chans a, out_channels = dims a ! 0, kernel_size = 4,
              stride = 4, padding = 0, groups = 1, conv_weight = [TruncNormal (2 / 100)],
              conv_bias = [Constant 0]\<rparr>,
            MLayerNorm \<lparr>weight = replicate (dims a ! 0) 1, bias = replicate (dims a ! 0) 0,
              eps = 1 / 10 ^ 6, data_format = ''channels_first'',
              normalized_shape = dims a ! 0\<rparr>],
         d1, d2, d3]
    \<and> 4 \<le> length (dims a)
    \<and> (\<forall>d \<in> set [d1, d2, d3]. \<forall>s \<in> set (submodules d). initialized_once s)"
proof -
  from ConvNeXt_init_eq_Inr [OF assms] obtain downs where
    tr: "traverse (downsample_layer_init (dims a)) [0, 1, 2] = Inr downs"
    and m: "downsample_layers m = map (module_apply init_weights)
             (Sequential
                [MConv2d \<lparr>in_channels = in_chans a, out_channels = dims a ! 0, kernel_size = 4,
                   stride = 4, padding = 0, groups = 1, conv_weight = [], conv_bias = []\<rparr>,
                 MLayerNorm \<lparr>weight = replicate (dims a ! 0) 1, bias = replicate (dims a ! 0) 0,
                   eps = 1 / 10 ^ 6, data_format = ''channels_first'',
                   normalized_shape = dims a ! 0\<rparr>] # downs)"
    by (auto simp: upt_0_3)
  from traverse_eq_Inr [OF tr] obtain e1 e2 e3 where
    downs: "downs = [e1, e2, e3]"
    and e: "downsample_layer_init (dims a) 0 = Inr e1" "downsample_layer_init (dims a) 1 = Inr e2"
      "downsample_layer_init (dims a) 2 = Inr e3"
    by (auto simp: list_all2_Cons1)
  from e have len: "4 \<le> length (dims a)"
    by (auto simp: downsample_layer_init_eq_Inr)
  have "\<forall>s \<in> set (submodules (module_apply init_weights d)). initialized_once s"
    if "downsample_layer_init (dims a) i = Inr d" for i d
    using that
    by (auto simp: downsample_layer_init_eq_Inr init_weights_def initialized_once_def)
  with e have "\<forall>d \<in> set (map (module_apply init_weights) [e1, e2, e3]).
      \<forall>s \<in> set (submodules d). initialized_once s"
    by auto
  with m downs len show ?thesis
    by (simp add: init_weights_def)
qed

lemma head_of_built:
  assumes "ConvNeXt_init a = Inr m"
  shows "head m = MLinear \<lparr>in_features = last (dims a), out_features = num_classes a,
             lin_weight = [TruncNormal (2 / 100), MulScalar (head_init_scale a)],
             lin_bias = [Constant 0, MulScalar (head_init_scale a)]\<rparr>"
    and "final_norm m = NNLayerNorm (last (dims a)) (1 / 10 ^ 6)"
    and "\<exists>ds st n h. m = ConvNeXt ds st n h"
  using ConvNeXt_init_eq_Inr [OF assms] by auto

lemma submodules_initialized_of_built:
  assumes "ConvNeXt_init a = Inr m"
  shows "\<forall>s \<in> set (concat (map submodules (downsample_layers m))
                    @ concat (map submodules (stages m)) @ submodules (final_norm m)).
           initialized_once s"
proof -
  from stages_of_built [OF assms] obtain b0 b1 b2 b3 where
    st: "stages m = map (\<lambda>bs. Sequential (map (module_apply init_weights) bs)) [b0, b1, b2, b3]"
    and bb: "\<forall>b \<in> set (b0 @ b1 @ b2 @ b3). built_block (act_factory_arg a) b"
    by blast
  have blk: "\<forall>s \<in> set (submodules (module_apply init_weights b)). initialized_once s"
    if "b \<in> set (b0 @ b1 @ b2 @ b3)" for b
    using bb that built_block_initialized(2) by blast
  have 1: "\<forall>s \<in> set (concat (map submodules (stages m))). initialized_once s"
    unfolding st using blk by (auto simp: initialized_once_def)
  from downsample_layers_of_built [OF assms]
  have 2: "\<forall>s \<in> set (concat (map submodules (downsample_layers m))). initialized_once s"
    by (auto simp: initialized_once_def)
  have 3: "\<forall>s \<in> set (submodules (final_norm m)). initialized_once s"
    by (simp add: head_of_built(2) [OF assms] initialized_once_def)
  from 1 2 3 show ?thesis by auto
qed

lemma ConvNeXt_call_eq_Inr:
  assumes "ConvNeXt_call ds dm af kw = Inr m"
  shows "\<exists>a. ConvNeXt_init a = Inr m \<and> depths a = ds \<and> dims a = dm \<and> act_factory_arg a = af"
  using assms by (auto simp: ConvNeXt_call_def split: if_splits)

lemma ConvNeXt_call_succeeds:
  assumes "4 \<le> length ds" "4 \<le> length dm" "kw_depths kw = None" "kw_dims kw = None"
    "kw_act kw = None"
  shows "\<exists>m. ConvNeXt_call ds dm af kw = Inr m"
  using assms by (simp add: ConvNeXt_call_def ConvNeXt_init_succeeds)






lemma valid_index2:
  "valid_index [N, C] idx \<longleftrightarrow> (\<exists>n c. idx = [n, c] \<and> n < N \<and> c < C)"
  by (auto simp: valid_index_def list_all2_Cons2)

lemma mean_last2_spatial:
  assumes "shape t = [N, C, H, W]"
  shows "mean_last2 t =
     Inr (tensor_of [N, C]
       (\<lambda>idx. sum_list (map (\<lambda>h. sum_list (map (\<lambda>w. elem t [idx ! 0, idx ! 1, h, w]) [0..<W]))
                          [0..<H])
               / real (H * W)))"
  using assms
  by (auto simp: mean_last2_def Let_def valid_index2 intro!: tensor_of_cong)

lemma table_entry:
  assumes "d \<in> set module_functions"
  obtains name ds dm cls kws where
    "d = \<lparr>fn_name = name, fn_decorators = [''register_model''],
          fn_body = (\<lambda>pretrained in_22k kw. ConvNeXt_call ds dm (partial cls kws) kw)\<rparr>"
    "(name, ds, dm, cls, kws) \<in> set variant_table"
    "named_family name = Some cls"
    "map_of kws ''degree'' = Some (PInt (named_degree name))"
    "length ds = 4" "length dm = 4" "0 < sum_list ds"
    "map_of kws ''clamp''
         = (if name = ''convnext_hermite_clamp_tiny'' then Some (PBool True) else None)"
proof -
  from assms obtain v where v: "v \<in> set variant_table" "d = variant_def v"
    by (auto simp: module_functions_table)
  obtain name ds dm cls kws where vv: "v = (name, ds, dm, cls, kws)"
    by (cases v) auto
  from variant_table_names v(1) vv
  have "named_family name = Some cls
     \<and> map_of kws ''degree'' = Some (PInt (named_degree name))
     \<and> length ds = 4 \<and> length dm = 4 \<and> 0 < sum_list ds
     \<and> map_of kws ''clamp''
         = (if name = ''convnext_hermite_clamp_tiny'' then Some (PBool True) else None)"
    by (auto simp: list_all_iff)
  with v vv that show thesis
    by (auto simp: variant_def_def)
qed

lemma sum_list_4: "length (ds :: nat list) = 4 \<Longrightarrow> ds ! 0 + ds ! 1 + ds ! 2 + ds ! 3 = sum_list ds"
  by (cases ds; simp; rename_tac xs; case_tac xs; simp; rename_tac ys; case_tac ys; simp;
      rename_tac zs; case_tac zs; simp)

lemma variant_builds:
  assumes "ConvNeXt_call ds dm (partial cls kws) kw = Inr m" "length ds = 4" "0 < sum_list ds"
  shows "blocks_of m \<noteq> []" and "\<forall>b \<in> set (blocks_of m). act b = Activation cls kws"
    and "\<exists>dl st n h. m = ConvNeXt dl st n h"
proof -
  from ConvNeXt_call_eq_Inr [OF assms(1)] obtain a where
    a: "ConvNeXt_init a = Inr m" "depths a = ds" "act_factory_arg a = partial cls kws"
    by blast
  from blocks_of_built(2) [OF a(1)]
  have "length (blocks_of m) = ds ! 0 + ds ! 1 + ds ! 2 + ds ! 3"
    unfolding a(2) .
  also have "\<dots> = sum_list ds"
    by (rule sum_list_4 [OF assms(2)])
  finally have "length (blocks_of m) = sum_list ds" .
  with assms(3) have "0 < length (blocks_of m)"
    by (simp only:)
  then show "blocks_of m \<noteq> []"
    by simp
  from blocks_of_built(1) [OF a(1)] a(3)
  show "\<forall>b \<in> set (blocks_of m). act b = Activation cls kws"
    by (simp add: instantiate_def partial_def)
  from head_of_built(3) [OF a(1)] show "\<exists>dl st n h. m = ConvNeXt dl st n h" .
qed


lemma no_kwargs_succeeds:
  "length ds = 4 \<Longrightarrow> length dm = 4 \<Longrightarrow> \<exists>m. ConvNeXt_call ds dm af no_kwargs = Inr m"
  by (rule ConvNeXt_call_succeeds) (simp_all add: no_kwargs_def)



lemma tiny_args_succeeds: "\<exists>m. ConvNeXt_init tiny_args = Inr m"
  by (rule ConvNeXt_init_succeeds) (simp_all add: tiny_args_def)

section \<open>The claims about the constructors\<close>



text \<open>
  Claim C5. Among the registered constructors exactly one, \<open>convnext_hermite_clamp_tiny\<close>,
  passes \<open>clamp=True\<close> to its activation class: in every model that a constructor returns,
  the keyword arguments of the activation of the blocks bind \<open>clamp\<close> to \<open>True\<close> when the
  constructor is \<open>convnext_hermite_clamp_tiny\<close> and do not bind \<open>clamp\<close> at all otherwise.
  \<open>convnext_hermite_clamp_tiny\<close> builds \<open>HermiteActivation(degree=3, clamp=True)\<close>, and
  the base constructor \<open>convnext_hermite_tiny\<close> builds \<open>HermiteActivation(degree=3)\<close>.
\<close>

theorem clamp_only_in_hermite_clamp_tiny:
  "(\<forall>d \<in> set module_functions. \<forall>p i kw m. fn_body d p i kw = Inr m \<longrightarrow>
      blocks_of m \<noteq> []
    \<and> (\<exists>cls kws. (\<forall>b \<in> set (blocks_of m). act b = Activation cls kws)
          \<and> map_of kws ''clamp''
              = (if fn_name d = ''convnext_hermite_clamp_tiny'' then Some (PBool True)
                 else None)))
   \<and> (\<exists>d \<in> set module_functions. fn_name d = ''convnext_hermite_clamp_tiny''
          \<and> fn_body d = convnext_hermite_clamp_tiny)
   \<and> (\<forall>p i kw m. convnext_hermite_clamp_tiny p i kw = Inr m \<longrightarrow>
        (\<forall>b \<in> set (blocks_of m).
           act b = Activation HermiteActivation [(''degree'', PInt 3), (''clamp'', PBool True)]))
   \<and> (\<forall>p i kw m. convnext_hermite_tiny p i kw = Inr m \<longrightarrow>
        (\<forall>b \<in> set (blocks_of m). act b = Activation HermiteActivation [(''degree'', PInt 3)]))"
proof (intro conjI ballI allI impI)
  fix d p i kw m
  assume d: "d \<in> set module_functions" and m: "fn_body d p i kw = Inr m"
  from d obtain name ds dm cls kws where e:
    "d = \<lparr>fn_name = name, fn_decorators = [''register_model''],
          fn_body = (\<lambda>pretrained in_22k kw. ConvNeXt_call ds dm (partial cls kws) kw)\<rparr>"
    "length ds = 4" "0 < sum_list ds"
    "map_of kws ''clamp''
         = (if name = ''convnext_hermite_clamp_tiny'' then Some (PBool True) else None)"
    by (rule table_entry)
  from m e(1) have call: "ConvNeXt_call ds dm (partial cls kws) kw = Inr m" by simp
  from variant_builds(1) [OF call e(2,3)] show "blocks_of m \<noteq> []" .
  from variant_builds(2) [OF call e(2,3)] e(1,4)
  show "\<exists>cls kws. (\<forall>b \<in> set (blocks_of m). act b = Activation cls kws)
          \<and> map_of kws ''clamp''
              = (if fn_name d = ''convnext_hermite_clamp_tiny'' then Some (PBool True)
                 else None)"
    by (intro exI [of _ cls] exI [of _ kws]) simp
next
  show "\<exists>d \<in> set module_functions. fn_name d = ''convnext_hermite_clamp_tiny''
          \<and> fn_body d = convnext_hermite_clamp_tiny"
    by (simp add: module_functions_def)
next
  fix p i kw m b
  assume "convnext_hermite_clamp_tiny p i kw = Inr m" "b \<in> set (blocks_of m)"
  then show "act b = Activation HermiteActivation [(''degree'', PInt 3), (''clamp'', PBool True)]"
    using variant_builds(2) [of "[3, 3, 9, 3]" "[96, 192, 384, 768]" HermiteActivation
        "[(''degree'', PInt 3), (''clamp'', PBool True)]" kw m]
    by (simp add: convnext_hermite_clamp_tiny_def)
next
  fix p i kw m b
  assume "convnext_hermite_tiny p i kw = Inr m" "b \<in> set (blocks_of m)"
  then show "act b = Activation HermiteActivation [(''degree'', PInt 3)]"
    using variant_builds(2) [of "[3, 3, 9, 3]" "[96, 192, 384, 768]" HermiteActivation
        "[(''degree'', PInt 3)]" kw m]
    by (simp add: convnext_hermite_tiny_def)
qed

theorem clamp_only_in_hermite_clamp_tiny_witness:
  "\<exists>m m'. convnext_hermite_clamp_tiny False False no_kwargs = Inr m
     \<and> convnext_hermite_tiny False False no_kwargs = Inr m'
     \<and> blocks_of m \<noteq> [] \<and> blocks_of m' \<noteq> []
     \<and> list_all (\<lambda>b. act b = Activation HermiteActivation
                        [(''degree'', PInt 3), (''clamp'', PBool True)]) (blocks_of m)
     \<and> list_all (\<lambda>b. act b = Activation HermiteActivation [(''degree'', PInt 3)])
          (blocks_of m')"
proof -
  obtain m where m: "convnext_hermite_clamp_tiny False False no_kwargs = Inr m"
    using no_kwargs_succeeds [of "[3, 3, 9, 3]" "[96, 192, 384, 768]"
        "partial HermiteActivation [(''degree'', PInt 3), (''clamp'', PBool True)]"]
    by (auto simp: convnext_hermite_clamp_tiny_def)
  obtain m' where m': "convnext_hermite_tiny False False no_kwargs = Inr m'"
    using no_kwargs_succeeds [of "[3, 3, 9, 3]" "[96, 192, 384, 768]"
        "partial HermiteActivation [(''degree'', PInt 3)]"]
    by (auto simp: convnext_hermite_tiny_def)
  have d: "\<lparr>fn_name = ''convnext_hermite_clamp_tiny'', fn_decorators = [''register_model''],
            fn_body = convnext_hermite_clamp_tiny\<rparr> \<in> set module_functions"
    "\<lparr>fn_name = ''convnext_hermite_tiny'', fn_decorators = [''register_model''],
            fn_body = convnext_hermite_tiny\<rparr> \<in> set module_functions"
    by (simp_all add: module_functions_def)
  note c = clamp_only_in_hermite_clamp_tiny
  from c d(1) m have 1: "blocks_of m \<noteq> []" by fastforce
  from c d(2) m' have 2: "blocks_of m' \<noteq> []" by fastforce
  from c m have 3: "\<forall>b \<in> set (blocks_of m).
      act b = Activation HermiteActivation [(''degree'', PInt 3), (''clamp'', PBool True)]"
    by blast
  from c m' have 4: "\<forall>b \<in> set (blocks_of m').
      act b = Activation HermiteActivation [(''degree'', PInt 3)]"
    by blast
  from m m' 1 2 3 4 show ?thesis by (auto simp: list_all_iff)
qed

text \<open>
  Claim C10. For every registered constructor the arguments \<open>pretrained\<close> and \<open>in_22k\<close>
  have no effect: two calls that differ only in them have the same outcome, the same
  model or the same exception. (A model is its architecture and the operations applied to
  its parameters; the random draws of the initialisation are outside the model.)
\<close>

theorem pretrained_and_in_22k_have_no_effect:
  "\<forall>d \<in> set module_functions. \<forall>pretrained in_22k pretrained' in_22k' kw.
      fn_body d pretrained in_22k kw = fn_body d pretrained' in_22k' kw"
proof (intro ballI allI)
  fix d pretrained in_22k pretrained' in_22k' kw
  assume "d \<in> set module_functions"
  then obtain name ds dm cls kws where
    "d = \<lparr>fn_name = name, fn_decorators = [''register_model''],
          fn_body = (\<lambda>pretrained in_22k kw. ConvNeXt_call ds dm (partial cls kws) kw)\<rparr>"
    by (rule table_entry)
  then show "fn_body d pretrained in_22k kw = fn_body d pretrained' in_22k' kw"
    by simp
qed

theorem pretrained_and_in_22k_have_no_effect_witness:
  "convnext_hermite_tiny True True no_kwargs = convnext_hermite_tiny False False no_kwargs
   \<and> (\<exists>m. convnext_hermite_tiny True True no_kwargs = Inr m)"
proof -
  have d: "\<lparr>fn_name = ''convnext_hermite_tiny'', fn_decorators = [''register_model''],
            fn_body = convnext_hermite_tiny\<rparr> \<in> set module_functions"
    by (simp add: module_functions_def)
  from pretrained_and_in_22k_have_no_effect d
  have "convnext_hermite_tiny True True no_kwargs = convnext_hermite_tiny False False no_kwargs"
    by fastforce
  moreover have "\<exists>m. convnext_hermite_tiny False False no_kwargs = Inr m"
    using no_kwargs_succeeds [of "[3, 3, 9, 3]" "[96, 192, 384, 768]"
        "partial HermiteActivation [(''degree'', PInt 3)]"]
    by (auto simp: convnext_hermite_tiny_def)
  ultimately show ?thesis by simp
qed

text \<open>
  Claim C7. \<open>__all__\<close> of the package \<open>mmcv_custom\<close> is the list of the three names
  \<open>load_checkpoint\<close>, \<open>LearningRateDecayOptimizerConstructor\<close> and
  \<open>CustomizedTextLoggerHook\<close>, without repetition; they are exactly the names the package
  imports, one from each of the submodules \<open>checkpoint\<close>,
  \<open>layer_decay_optimizer_constructor\<close> and \<open>customized_text\<close>.
\<close>

theorem mmcv_custom_exports:
  "mmcv_custom_all =
     [''load_checkpoint'', ''LearningRateDecayOptimizerConstructor'', ''CustomizedTextLoggerHook'']
   \<and> length mmcv_custom_all = 3
   \<and> distinct mmcv_custom_all
   \<and> map snd mmcv_custom_imports = mmcv_custom_all
   \<and> map fst mmcv_custom_imports
       = [''checkpoint'', ''layer_decay_optimizer_constructor'', ''customized_text'']
   \<and> distinct (map fst mmcv_custom_imports)"
  by (simp add: mmcv_custom_all_def mmcv_custom_imports_def)

theorem mmcv_custom_exports_witness:
  "set mmcv_custom_all =
     {''load_checkpoint'', ''LearningRateDecayOptimizerConstructor'', ''CustomizedTextLoggerHook''}
   \<and> map_of mmcv_custom_imports ''checkpoint'' = Some ''load_checkpoint''"
proof -
  from mmcv_custom_exports have a: "mmcv_custom_all =
     [''load_checkpoint'', ''LearningRateDecayOptimizerConstructor'', ''CustomizedTextLoggerHook'']"
    by (rule conjunct1)
  show ?thesis
    by (simp add: a mmcv_custom_imports_def)
qed



section \<open>The claims about the forward pass and the initialisation\<close>

text \<open>
  Claim C1. For every block and every input \<open>x\<close>, \<open>Block.forward\<close> returns
  \<open>input + drop_path(branch(x))\<close>, where the branch is, in this order: \<open>dwconv\<close>, the
  permutation to channels-last, the \<open>LayerNorm\<close>, \<open>pwconv1\<close>, the activation, \<open>pwconv2\<close>,
  the scaling by \<open>gamma\<close> when \<open>gamma\<close> is not \<open>None\<close> (and nothing when it is), and the
  permutation back to channels-first; an exception of any step is the result. The sum is
  elementwise on the unmodified input. In a block that \<open>Block.__init__\<close> built, \<open>gamma\<close> is
  \<open>None\<close> exactly when \<open>layer_scale_init_value\<close> is not positive, \<open>drop_path\<close> is the
  identity exactly when the rate is not positive, and the activation is the configured one.
\<close>

theorem Block_forward_is_residual:
  "forward K (Block dw n p1 a p2 g dp) x
     = bind (Block_branch K (Block dw n p1 a p2 g dp) x) (\<lambda>y.
       bind (forward K dp y) (\<lambda>d.
       tensor_add x d))
   \<and> layer_scale None x = Inr x
   \<and> (\<forall>w. layer_scale (Some w) x = tensor_mul (vector w) x)
   \<and> forward K Identity x = Inr x
   \<and> (\<forall>N C H W d. shape x = [N, C, H, W] \<and> shape d = [N, C, H, W] \<longrightarrow>
         tensor_add x d = Inr (tensor_of [N, C, H, W] (\<lambda>idx. elem x idx + elem d idx)))
   \<and> (\<forall>dim_arg rate scale af b. Block_init dim_arg rate scale af = Inr b \<longrightarrow>
         gamma b = (if scale > 0 then Some (replicate dim_arg scale) else None)
       \<and> drop_path b = (if rate > 0 then DropPath rate else Identity)
       \<and> act b = instantiate af)"
proof (intro conjI allI impI)
  show "forward K (Block dw n p1 a p2 g dp) x
     = bind (Block_branch K (Block dw n p1 a p2 g dp) x) (\<lambda>y.
       bind (forward K dp y) (\<lambda>d.
       tensor_add x d))"
    by (simp add: Block_forward_def Block_branch_def layer_scale_def Let_def bind_def
        split: sum.splits)
next
  fix N C H W and d :: tensor
  assume "shape x = [N, C, H, W] \<and> shape d = [N, C, H, W]"
  then show "tensor_add x d = Inr (tensor_of [N, C, H, W] (\<lambda>idx. elem x idx + elem d idx))"
    by (simp add: tensor_add_def elementwise_same_shape)
next
  fix dim_arg rate scale af b
  assume b: "Block_init dim_arg rate scale af = Inr b"
  from b show "gamma b = (if scale > 0 then Some (replicate dim_arg scale) else None)"
    by (auto simp: Block_init_eq)
  from b show "drop_path b = (if rate > 0 then DropPath rate else Identity)"
    by (auto simp: Block_init_eq)
  from b show "act b = instantiate af"
    by (auto simp: Block_init_eq)
qed (simp_all add: layer_scale_def)


theorem Block_forward_is_residual_witness:
  "forward (\<lambda>m x. Inr x) (Block Identity Identity Identity Identity Identity None Identity)
       (tensor_of [1, 1, 1, 1] (\<lambda>idx. 1))
     = Inr (tensor_of [1, 1, 1, 1] (\<lambda>idx. 2))
   \<and> (\<exists>b. Block_init 96 0 (1 / 10 ^ 6) (partial HermiteActivation [(''degree'', PInt 3)]) = Inr b
          \<and> gamma b = Some (replicate 96 (1 / 10 ^ 6)) \<and> drop_path b = Identity
          \<and> act b = Activation HermiteActivation [(''degree'', PInt 3)])"
proof -
  let ?x = "tensor_of [1, 1, 1, 1] (\<lambda>idx. 1)"
  let ?K = "\<lambda>(m :: module) (x :: tensor). (Inr x :: error + tensor)"
  note t = Block_forward_is_residual
    [of ?K Identity Identity Identity Identity Identity None Identity ?x]
  have sx: "shape ?x = [1, 1, 1, 1]"
    by simp
  have "tensor_of [1, 1, 1, 1] (\<lambda>idx. elem ?x [idx ! 0, idx ! 3, idx ! 1, idx ! 2]) = ?x"
    by (rule tensor_of_cong) (auto simp: valid_index4 elem_tensor_of)
  with permute_to_channels_last [OF sx] have p1: "permute ?x [0, 2, 3, 1] = Inr ?x"
    by (simp only:)
  have "tensor_of [1, 1, 1, 1] (\<lambda>idx. elem ?x [idx ! 0, idx ! 2, idx ! 3, idx ! 1]) = ?x"
    by (rule tensor_of_cong) (auto simp: valid_index4 elem_tensor_of)
  with permute_to_channels_first [OF sx] have p2: "permute ?x [0, 3, 1, 2] = Inr ?x"
    by (simp only:)
  have br: "Block_branch ?K (Block Identity Identity Identity Identity Identity None Identity) ?x
      = Inr ?x"
    using p1 p2 by (simp add: Block_branch_def layer_scale_def)
  from t have "tensor_add ?x ?x = Inr (tensor_of [1, 1, 1, 1] (\<lambda>idx. elem ?x idx + elem ?x idx))"
    by simp
  also have "tensor_of [1, 1, 1, 1] (\<lambda>idx. elem ?x idx + elem ?x idx)
      = tensor_of [1, 1, 1, 1] (\<lambda>idx. 2)"
    by (rule tensor_of_cong) (simp add: elem_tensor_of)
  finally have add: "tensor_add ?x ?x = Inr (tensor_of [1, 1, 1, 1] (\<lambda>idx. 2))" .
  from t have "forward ?K (Block Identity Identity Identity Identity Identity None Identity) ?x
     = bind (Block_branch ?K (Block Identity Identity Identity Identity Identity None Identity) ?x)
         (\<lambda>y. bind (forward ?K Identity y) (\<lambda>d. tensor_add ?x d))"
    by (rule conjunct1)
  also have "\<dots> = Inr (tensor_of [1, 1, 1, 1] (\<lambda>idx. 2))"
    by (simp only: br bind_Inr forward.simps add)
  finally have 1: "forward ?K (Block Identity Identity Identity Identity Identity None Identity) ?x
     = Inr (tensor_of [1, 1, 1, 1] (\<lambda>idx. 2))" .
  obtain b where b: "Block_init 96 0 (1 / 10 ^ 6) (partial HermiteActivation [(''degree'', PInt 3)]) = Inr b"
    by (simp add: Block_init_eq)
  with t have "gamma b = Some (replicate 96 (1 / 10 ^ 6)) \<and> drop_path b = Identity
          \<and> act b = Activation HermiteActivation [(''degree'', PInt 3)]"
    by (auto simp: instantiate_def partial_def)
  with 1 b show ?thesis by blast
qed

text \<open>
  Claim C3. For every model that \<open>ConvNeXt.__init__\<close> built and every input \<open>x\<close>,
  \<open>forward(x)\<close> is the head applied to \<open>forward_features(x)\<close>, and \<open>forward_features\<close>
  calls, in this order, downsampling layer 0 (the stem), stage 0, downsampling layer 1,
  stage 1, downsampling layer 2, stage 2, downsampling layer 3, stage 3, then takes the
  mean over the last two dimensions, which takes a tensor of shape \<open>(N, C, H, W)\<close> to one of
  shape \<open>(N, C)\<close>, then calls the final layer normalisation. There are exactly four
  downsampling layers and four stages, and the head is one linear layer from \<open>dims[-1]\<close> to
  \<open>num_classes\<close>.
\<close>

theorem ConvNeXt_forward_is_head_of_features:
  assumes "ConvNeXt_init a = Inr m"
  shows "forward K m x
       = bind (forward_features (map (forward K) (downsample_layers m))
                 (map (forward K) (stages m)) (forward K (final_norm m)) x)
              (forward K (head m))
     \<and> forward_features (map (forward K) (downsample_layers m))
           (map (forward K) (stages m)) (forward K (final_norm m)) x
       = Sequential_forward
           [forward K (downsample_layers m ! 0), forward K (stages m ! 0),
            forward K (downsample_layers m ! 1), forward K (stages m ! 1),
            forward K (downsample_layers m ! 2), forward K (stages m ! 2),
            forward K (downsample_layers m ! 3), forward K (stages m ! 3),
            mean_last2, forward K (final_norm m)] x
     \<and> length (downsample_layers m) = 4 \<and> length (stages m) = 4
     \<and> downsample_layers m ! 0 =
         Sequential
           [MConv2d \<lparr>in_channels = in_chans a, out_channels = dims a ! 0, kernel_size = 4,
              stride = 4, padding = 0, groups = 1, conv_weight = [TruncNormal (2 / 100)],
              conv_bias = [Constant 0]\<rparr>,
            MLayerNorm \<lparr>weight = replicate (dims a ! 0) 1, bias = replicate (dims a ! 0) 0,
              eps = 1 / 10 ^ 6, data_format = ''channels_first'',
              normalized_shape = dims a ! 0\<rparr>]
     \<and> final_norm m = NNLayerNorm (last (dims a)) (1 / 10 ^ 6)
     \<and> (\<exists>w b. head m = MLinear \<lparr>in_features = last (dims a), out_features = num_classes a,
                         lin_weight = w, lin_bias = b\<rparr>)
     \<and> (\<forall>t N C H W. shape t = [N, C, H, W] \<longrightarrow>
           mean_last2 t =
             Inr (tensor_of [N, C]
               (\<lambda>idx. sum_list (map (\<lambda>h. sum_list (map (\<lambda>w. elem t [idx ! 0, idx ! 1, h, w])
                                                          [0..<W])) [0..<H])
                       / real (H * W))))"
proof -
  from head_of_built [OF assms] obtain ds st n h where m: "m = ConvNeXt ds st n h"
    and hd: "head m = MLinear \<lparr>in_features = last (dims a), out_features = num_classes a,
             lin_weight = [TruncNormal (2 / 100), MulScalar (head_init_scale a)],
             lin_bias = [Constant 0, MulScalar (head_init_scale a)]\<rparr>"
    and fn: "final_norm m = NNLayerNorm (last (dims a)) (1 / 10 ^ 6)"
    by blast
  from downsample_layers_of_built [OF assms] obtain d1 d2 d3 where
    dl: "downsample_layers m =
        [Sequential
           [MConv2d \<lparr>in_channels = in_chans a, out_channels = dims a ! 0, kernel_size = 4,
              stride = 4, padding = 0, groups = 1, conv_weight = [TruncNormal (2 / 100)],
              conv_bias = [Constant 0]\<rparr>,
            MLayerNorm \<lparr>weight = replicate (dims a ! 0) 1, bias = replicate (dims a ! 0) 0,
              eps = 1 / 10 ^ 6, data_format = ''channels_first'',
              normalized_shape = dims a ! 0\<rparr>],
         d1, d2, d3]"
    by blast
  from stages_of_built [OF assms] obtain s0 s1 s2 s3 where
    sl: "stages m = [s0, s1, s2, s3]"
    by auto
  from m dl sl have ds: "ds = downsample_layers m" and st: "st = stages m"
    and n: "n = final_norm m" and h: "h = head m"
    by simp_all
  have 1: "forward K m x
       = bind (forward_features (map (forward K) (downsample_layers m))
                 (map (forward K) (stages m)) (forward K (final_norm m)) x)
              (forward K (head m))"
    unfolding ds [symmetric] st [symmetric] n [symmetric] h [symmetric]
    by (simp add: m ConvNeXt_forward_def)
  have 2: "forward_features (map (forward K) (downsample_layers m))
           (map (forward K) (stages m)) (forward K (final_norm m)) x
       = Sequential_forward
           [forward K (downsample_layers m ! 0), forward K (stages m ! 0),
            forward K (downsample_layers m ! 1), forward K (stages m ! 1),
            forward K (downsample_layers m ! 2), forward K (stages m ! 2),
            forward K (downsample_layers m ! 3), forward K (stages m ! 3),
            mean_last2, forward K (final_norm m)] x"
    unfolding dl sl
    by (simp add: forward_features_def upt_0_4 get_def bind_def split: sum.splits)
  from 1 2 dl sl fn hd mean_last2_spatial show ?thesis
    by (intro conjI) auto
qed


theorem ConvNeXt_forward_is_head_of_features_witness:
  "\<exists>m. ConvNeXt_init tiny_args = Inr m
     \<and> length (downsample_layers m) = 4 \<and> length (stages m) = 4
     \<and> final_norm m = NNLayerNorm 768 (1 / 10 ^ 6)
     \<and> (\<exists>w b. head m = MLinear \<lparr>in_features = 768, out_features = 1000,
                         lin_weight = w, lin_bias = b\<rparr>)
     \<and> (\<forall>K x. forward K m x
           = bind (Sequential_forward
               [forward K (downsample_layers m ! 0), forward K (stages m ! 0),
                forward K (downsample_layers m ! 1), forward K (stages m ! 1),
                forward K (downsample_layers m ! 2), forward K (stages m ! 2),
                forward K (downsample_layers m ! 3), forward K (stages m ! 3),
                mean_last2, forward K (final_norm m)] x)
              (forward K (head m)))"
proof -
  from tiny_args_succeeds obtain m where m: "ConvNeXt_init tiny_args = Inr m" ..
  note t = ConvNeXt_forward_is_head_of_features [OF m]
  have l: "last (dims tiny_args) = 768" "num_classes tiny_args = 1000"
    by (simp_all add: tiny_args_def)
  from t have 1: "length (downsample_layers m) = 4 \<and> length (stages m) = 4
     \<and> final_norm m = NNLayerNorm 768 (1 / 10 ^ 6)
     \<and> (\<exists>w b. head m = MLinear \<lparr>in_features = 768, out_features = 1000,
                         lin_weight = w, lin_bias = b\<rparr>)"
    unfolding l by blast
  have 2: "forward K m x
           = bind (Sequential_forward
               [forward K (downsample_layers m ! 0), forward K (stages m ! 0),
                forward K (downsample_layers m ! 1), forward K (stages m ! 1),
                forward K (downsample_layers m ! 2), forward K (stages m ! 2),
                forward K (downsample_layers m ! 3), forward K (stages m ! 3),
                mean_last2, forward K (final_norm m)] x)
              (forward K (head m))" for K x
  proof -
    note u = ConvNeXt_forward_is_head_of_features [OF m, of K x]
    from u have a: "forward K m x
       = bind (forward_features (map (forward K) (downsample_layers m))
                 (map (forward K) (stages m)) (forward K (final_norm m)) x)
              (forward K (head m))"
      by (rule conjunct1)
    from u have b: "forward_features (map (forward K) (downsample_layers m))
           (map (forward K) (stages m)) (forward K (final_norm m)) x
       = Sequential_forward
           [forward K (downsample_layers m ! 0), forward K (stages m ! 0),
            forward K (downsample_layers m ! 1), forward K (stages m ! 1),
            forward K (downsample_layers m ! 2), forward K (stages m ! 2),
            forward K (downsample_layers m ! 3), forward K (stages m ! 3),
            mean_last2, forward K (final_norm m)] x"
      by (rule conjunct2 [THEN conjunct1])
    show ?thesis by (simp only: a b)
  qed
  from m 1 2 show ?thesis by blast
qed

text \<open>
  Claim C4. In a model that \<open>ConvNeXt.__init__\<close> built, every convolution and every linear
  layer below the downsampling layers and the stages has had exactly one operation on its
  weight, \<open>trunc_normal_\<close> with \<open>std=.02\<close>, and exactly one on its bias, \<open>constant_\<close> with
  \<open>0\<close>; the head has had the same two and then, on its weight and on its bias, the
  multiplication by \<open>head_init_scale\<close>. These, with the final normalisation and the model
  itself, are all the submodules, and at least one of them is a convolution.
  \<open>_init_weights\<close> itself appends exactly these two operations to a convolution and to a
  linear layer.
\<close>

theorem ConvNeXt_init_initializes_parameters_once:
  assumes "ConvNeXt_init a = Inr m"
  shows "(\<forall>s \<in> set (concat (map submodules (downsample_layers m))
                    @ concat (map submodules (stages m)) @ submodules (final_norm m)).
            (\<forall>c. s = MConv2d c \<longrightarrow>
               conv_weight c = [TruncNormal (2 / 100)] \<and> conv_bias c = [Constant 0])
          \<and> (\<forall>l. s = MLinear l \<longrightarrow>
               lin_weight l = [TruncNormal (2 / 100)] \<and> lin_bias l = [Constant 0]))
     \<and> head m = MLinear \<lparr>in_features = last (dims a), out_features = num_classes a,
             lin_weight = [TruncNormal (2 / 100), MulScalar (head_init_scale a)],
             lin_bias = [Constant 0, MulScalar (head_init_scale a)]\<rparr>
     \<and> submodules m
         = m # concat (map submodules (downsample_layers m))
             @ concat (map submodules (stages m)) @ submodules (final_norm m) @ [head m]
     \<and> (\<exists>c. MConv2d c \<in> set (concat (map submodules (downsample_layers m))))
     \<and> (\<forall>c. init_weights (MConv2d c)
            = MConv2d (c\<lparr>conv_weight := conv_weight c @ [TruncNormal (2 / 100)],
                        conv_bias := conv_bias c @ [Constant 0]\<rparr>))
     \<and> (\<forall>l. init_weights (MLinear l)
            = MLinear (l\<lparr>lin_weight := lin_weight l @ [TruncNormal (2 / 100)],
                        lin_bias := lin_bias l @ [Constant 0]\<rparr>))"
proof (intro conjI)
  show "\<forall>s \<in> set (concat (map submodules (downsample_layers m))
                    @ concat (map submodules (stages m)) @ submodules (final_norm m)).
            (\<forall>c. s = MConv2d c \<longrightarrow>
               conv_weight c = [TruncNormal (2 / 100)] \<and> conv_bias c = [Constant 0])
          \<and> (\<forall>l. s = MLinear l \<longrightarrow>
               lin_weight l = [TruncNormal (2 / 100)] \<and> lin_bias l = [Constant 0])"
  proof
    fix s
    assume "s \<in> set (concat (map submodules (downsample_layers m))
                    @ concat (map submodules (stages m)) @ submodules (final_norm m))"
    with submodules_initialized_of_built [OF assms] have "initialized_once s"
      by blast
    then show "(\<forall>c. s = MConv2d c \<longrightarrow>
               conv_weight c = [TruncNormal (2 / 100)] \<and> conv_bias c = [Constant 0])
          \<and> (\<forall>l. s = MLinear l \<longrightarrow>
               lin_weight l = [TruncNormal (2 / 100)] \<and> lin_bias l = [Constant 0])"
      by (auto simp: initialized_once_def)
  qed
  from head_of_built(1) [OF assms]
  show hd: "head m = MLinear \<lparr>in_features = last (dims a), out_features = num_classes a,
             lin_weight = [TruncNormal (2 / 100), MulScalar (head_init_scale a)],
             lin_bias = [Constant 0, MulScalar (head_init_scale a)]\<rparr>" .
  from head_of_built(3) [OF assms] obtain ds st n h where m: "m = ConvNeXt ds st n h"
    by blast
  with hd show "submodules m
         = m # concat (map submodules (downsample_layers m))
             @ concat (map submodules (stages m)) @ submodules (final_norm m) @ [head m]"
    by simp
  from downsample_layers_of_built [OF assms]
  show "\<exists>c. MConv2d c \<in> set (concat (map submodules (downsample_layers m)))"
    by auto
qed (simp_all add: init_weights_def)

theorem ConvNeXt_init_initializes_parameters_once_witness:
  "\<exists>m. ConvNeXt_init tiny_args = Inr m
     \<and> head m = MLinear \<lparr>in_features = 768, out_features = 1000,
           lin_weight = [TruncNormal (2 / 100), MulScalar 1],
           lin_bias = [Constant 0, MulScalar 1]\<rparr>
     \<and> list_all initialized_once
           (concat (map submodules (downsample_layers m))
              @ concat (map submodules (stages m)) @ submodules (final_norm m))
     \<and> (\<exists>c. MConv2d c \<in> set (concat (map submodules (downsample_layers m))))"
proof -
  from tiny_args_succeeds obtain m where m: "ConvNeXt_init tiny_args = Inr m" ..
  note t = ConvNeXt_init_initializes_parameters_once [OF m]
  have l: "last (dims tiny_args) = 768" "num_classes tiny_args = 1000"
    "head_init_scale tiny_args = 1"
    by (simp_all add: tiny_args_def)
  from t have 1: "head m = MLinear \<lparr>in_features = 768, out_features = 1000,
           lin_weight = [TruncNormal (2 / 100), MulScalar 1],
           lin_bias = [Constant 0, MulScalar 1]\<rparr>"
    unfolding l by blast
  from t have "\<forall>s \<in> set (concat (map submodules (downsample_layers m))
                    @ concat (map submodules (stages m)) @ submodules (final_norm m)).
            (\<forall>c. s = MConv2d c \<longrightarrow>
               conv_weight c = [TruncNormal (2 / 100)] \<and> conv_bias c = [Constant 0])
          \<and> (\<forall>l. s = MLinear l \<longrightarrow>
               lin_weight l = [TruncNormal (2 / 100)] \<and> lin_bias l = [Constant 0])"
    by (rule conjunct1)
  then have "initialized_once s"
    if "s \<in> set (concat (map submodules (downsample_layers m))
              @ concat (map submodules (stages m)) @ submodules (final_norm m))" for s
    using that by (cases s) (simp_all add: initialized_once_def)
  then have 2: "list_all initialized_once
           (concat (map submodules (downsample_layers m))
              @ concat (map submodules (stages m)) @ submodules (final_norm m))"
    unfolding list_all_iff by blast
  from t have 3: "\<exists>c. MConv2d c \<in> set (concat (map submodules (downsample_layers m)))"
    by blast
  from m 1 2 3 show ?thesis by blast
qed

end
